theory Spec2Isabelle
  imports Complex_Main "HOL-Library.Sublist" "HOL-Library.AList" "HOL-Library.Multiset"
begin

section \<open>JavaScript strings\<close>

text \<open>
  A JavaScript string is modelled as a \<^typ>\<open>string\<close>: a list of code units, here the
  code units 0 to 255. \<open>length\<close> is the source's \<open>.length\<close>, \<open>take n\<close> is
  \<open>.substring(0, n)\<close>. \<open>String.prototype.trim\<close> removes white space and line
  terminators from both ends; in the range 0 to 255 these are the code units
  9 to 13, 32 and 160.
\<close>

definition isWhiteSpace :: "char \<Rightarrow> bool" where
  "isWhiteSpace c =
     (c = CHR 0x09 \<or> c = CHR 0x0A \<or> c = CHR 0x0B \<or> c = CHR 0x0C \<or> c = CHR 0x0D
      \<or> c = CHR 0x20 \<or> c = CHR 0xA0)"

definition trim :: "string \<Rightarrow> string" where
  "trim s = rev (dropWhile isWhiteSpace (rev (dropWhile isWhiteSpace s)))"

text \<open>\<open>Array.prototype.join(sep)\<close> on an array of strings.\<close>

fun join :: "string \<Rightarrow> string list \<Rightarrow> string" where
  "join sep [] = []"
| "join sep [x] = x"
| "join sep (x # y # ys) = x @ sep @ join sep (y # ys)"

section \<open>The data model (types/job.ts)\<close>

datatype JobStatus = PENDING | ASSIGNED | IN_PROGRESS | COMPLETED | CANCELLED | ON_HOLD

text \<open>The string each member of the enum \<open>JobStatus\<close> is at run time.\<close>

fun JobStatus_value :: "JobStatus \<Rightarrow> string" where
  "JobStatus_value PENDING = ''pending''"
| "JobStatus_value ASSIGNED = ''assigned''"
| "JobStatus_value IN_PROGRESS = ''in_progress''"
| "JobStatus_value COMPLETED = ''completed''"
| "JobStatus_value CANCELLED = ''cancelled''"
| "JobStatus_value ON_HOLD = ''on_hold''"

datatype JobPriority = LOW | MEDIUM | HIGH | URGENT

fun JobPriority_value :: "JobPriority \<Rightarrow> string" where
  "JobPriority_value LOW = ''low''"
| "JobPriority_value MEDIUM = ''medium''"
| "JobPriority_value HIGH = ''high''"
| "JobPriority_value URGENT = ''urgent''"

datatype JobType = INSTALLATION | REPAIR | MAINTENANCE | INSPECTION | UPGRADE | EMERGENCY

fun JobType_value :: "JobType \<Rightarrow> string" where
  "JobType_value INSTALLATION = ''installation''"
| "JobType_value REPAIR = ''repair''"
| "JobType_value MAINTENANCE = ''maintenance''"
| "JobType_value INSPECTION = ''inspection''"
| "JobType_value UPGRADE = ''upgrade''"
| "JobType_value EMERGENCY = ''emergency''"

text \<open>
  \<open>interface JobUpdate\<close>: every field is optional (\<open>None\<close> is an absent field). Dates
  are milliseconds since the epoch; a JavaScript number is a real (rounding is not
  modelled). The fields carry the suffix \<open>_upd\<close> to keep them apart from the fields
  of a job.
\<close>

record JobUpdate =
  status_upd :: "JobStatus option"
  notes_upd :: "string option"
  internalNotes_upd :: "string option"
  startedAt_upd :: "int option"
  completedAt_upd :: "int option"
  actualDuration_upd :: "real option"
  completionNotes_upd :: "string option"
  customerSignature_upd :: "string option"
  photos_upd :: "string list option"
  workSummary_upd :: "string option"

section \<open>Validation (utils/validation.ts)\<close>

record ValidationResult =
  isValid :: bool
  errors :: "string list"

text \<open>
  Every validator starts from an empty array \<open>errors\<close>, pushes one message per violated
  rule in the order of its \<open>if\<close> statements, and returns
  \<open>{ isValid: errors.length === 0, errors }\<close>.
\<close>

definition mkResult :: "string list \<Rightarrow> ValidationResult" where
  "mkResult errs = \<lparr>isValid = (length errs = 0), errors = errs\<rparr>"

subsection \<open>validateStatusTransition\<close>

fun validTransitions :: "JobStatus \<Rightarrow> JobStatus list" where
  "validTransitions PENDING = [ASSIGNED, CANCELLED]"
| "validTransitions ASSIGNED = [IN_PROGRESS, CANCELLED, ON_HOLD]"
| "validTransitions IN_PROGRESS = [COMPLETED, ON_HOLD, CANCELLED]"
| "validTransitions ON_HOLD = [ASSIGNED, IN_PROGRESS, CANCELLED]"
| "validTransitions COMPLETED = []"
| "validTransitions CANCELLED = []"

definition validateStatusTransition :: "JobStatus \<Rightarrow> JobStatus \<Rightarrow> ValidationResult" where
  "validateStatusTransition currentStatus newStatus =
     mkResult
       (if newStatus \<notin> set (validTransitions currentStatus)
        then [''Invalid status transition from '' @ JobStatus_value currentStatus
              @ '' to '' @ JobStatus_value newStatus]
        else [])"

text \<open>
  The transition table as the specification words it (section 4.3), kept apart from
  \<open>validTransitions\<close> so that the two can be compared.
\<close>

fun spec_transition_table :: "JobStatus \<Rightarrow> JobStatus set" where
  "spec_transition_table PENDING = {ASSIGNED, CANCELLED}"
| "spec_transition_table ASSIGNED = {IN_PROGRESS, CANCELLED, ON_HOLD}"
| "spec_transition_table IN_PROGRESS = {COMPLETED, ON_HOLD, CANCELLED}"
| "spec_transition_table ON_HOLD = {ASSIGNED, IN_PROGRESS, CANCELLED}"
| "spec_transition_table COMPLETED = {}"
| "spec_transition_table CANCELLED = {}"

subsection \<open>validateJobAssignment\<close>

text \<open>\<open>!s || s.trim().length === 0\<close>: the empty string is the only falsy string.\<close>

definition blank :: "string \<Rightarrow> bool" where
  "blank s = (s = [] \<or> length (trim s) = 0)"

definition validateJobAssignment :: "string \<Rightarrow> string \<Rightarrow> string \<Rightarrow> ValidationResult" where
  "validateJobAssignment jobId technicianId assignedBy =
     mkResult
       ((if blank jobId then [''Job ID is required''] else [])
        @ (if blank technicianId then [''Technician ID is required''] else [])
        @ (if blank assignedBy then [''Assigned by field is required''] else []))"

subsection \<open>validateJobCompletion\<close>

text \<open>
  Each rule is guarded by the truthiness of its field: \<open>x && x.length > n\<close>. An absent
  field, the empty string and the number 0 are falsy; an array is always truthy.
\<close>

definition truthy_string :: "string option \<Rightarrow> bool" where
  "truthy_string v = (case v of None \<Rightarrow> False | Some s \<Rightarrow> s \<noteq> [])"

definition truthy_number :: "real option \<Rightarrow> bool" where
  "truthy_number v = (case v of None \<Rightarrow> False | Some n \<Rightarrow> n \<noteq> 0)"

definition validateJobCompletion :: "JobUpdate \<Rightarrow> ValidationResult" where
  "validateJobCompletion completionData =
     mkResult
       ((case completionNotes_upd completionData of
           Some s \<Rightarrow>
             if truthy_string (Some s) \<and> length s > 1000
             then [''Completion notes must be less than 1000 characters''] else []
         | None \<Rightarrow> [])
        @ (case workSummary_upd completionData of
             Some s \<Rightarrow>
               if truthy_string (Some s) \<and> length s > 2000
               then [''Work summary must be less than 2000 characters''] else []
           | None \<Rightarrow> [])
        @ (case actualDuration_upd completionData of
             Some d \<Rightarrow>
               if truthy_number (Some d) \<and> d \<le> 0
               then [''Actual duration must be greater than 0 minutes''] else []
           | None \<Rightarrow> [])
        @ (case photos_upd completionData of
             Some ps \<Rightarrow>
               if length ps > 10 then [''Maximum 10 photos allowed per job''] else []
           | None \<Rightarrow> []))"

section \<open>Sanitizing (utils/validation.ts)\<close>

definition sanitizeString :: "string \<Rightarrow> string" where
  "sanitizeString input =
     take 1000
       (filter (\<lambda>c. c \<noteq> CHR 0x27 \<and> c \<noteq> CHR 0x22)
         (filter (\<lambda>c. c \<noteq> CHR ''<'' \<and> c \<noteq> CHR ''>'')
           (trim input)))"

text \<open>
  \<open>sanitizeJobData\<close> on an update payload: of the fields it sanitizes, a
  \<open>JobUpdate\<close> has \<open>completionNotes\<close> and \<open>workSummary\<close> (sanitized when truthy) and
  \<open>notes\<close> and \<open>internalNotes\<close>, which are strings here, not arrays, and are left as
  they are.
\<close>

definition sanitizeField :: "string option \<Rightarrow> string option" where
  "sanitizeField v =
     (case v of
        Some s \<Rightarrow> if truthy_string (Some s) then Some (sanitizeString s) else Some s
      | None \<Rightarrow> None)"

definition sanitizeJobData :: "JobUpdate \<Rightarrow> JobUpdate" where
  "sanitizeJobData jobData =
     jobData\<lparr>completionNotes_upd := sanitizeField (completionNotes_upd jobData),
             workSummary_upd := sanitizeField (workSummary_upd jobData)\<rparr>"

section \<open>Jobs, users and the document store\<close>

text \<open>
  A job document has the fields of \<open>interface Job\<close> that the operations below read
  or write. The identifier of a document is its key in the collection. The status of a
  stored document is the raw string: Firestore data is untyped, and \<open>getJobStats\<close>
  and \<open>assignJob\<close> compare it with the enum's values. \<open>notes\<close> and
  \<open>internalNotes\<close> are arrays in a \<open>Job\<close> and strings in a \<open>JobUpdate\<close>, and an
  update writes the string into the document, so the field holds either
  (\<open>notes\<close> is a keyword of Isabelle: the field is \<open>notes_job\<close>).
\<close>

record JobLocation =
  address :: string
  latitude :: real
  longitude :: real

record Customer =
  name :: string

record JobRequirements =
  skills :: "string list"

datatype Notes = NotesArray "string list" | NotesString string

record Job =
  title :: string
  description :: string
  status :: string
  priority :: JobPriority
  customer :: Customer
  location :: JobLocation
  assignedTechnicianId :: "string option"
  assignedBy :: "string option"
  assignedAt :: "int option"
  scheduledDate :: int
  requirements :: JobRequirements
  startedAt :: "int option"
  completedAt :: "int option"
  actualDuration :: "real option"
  notes_job :: Notes
  internalNotes :: Notes
  createdAt :: int
  updatedAt :: int
  completionNotes :: "string option"
  customerSignature :: "string option"
  photos :: "string list option"
  workSummary :: "string option"

record CurrentLocation =
  latitude_loc :: real
  longitude_loc :: real

record User =
  isActive :: bool
  role :: string
  skills_user :: "string list option"
  currentLocation :: "CurrentLocation option"

record JobAssignment =
  jobId :: string
  technicianId :: string
  assignedBy_asg :: string
  assignedAt_asg :: int
  notes_asg :: "string option"

record AssignmentDoc = JobAssignment +
  assignmentReason :: string

text \<open>
  The collections are association lists from document identifiers to documents, read
  with \<open>map_of\<close> (\<open>getDoc\<close>) and written with \<open>AList.map_entry\<close> (an update
  of the fields of an existing document); the assignment
  records, whose identifiers the store generates, are a list that grows at its end.
  A call to the store does not fail in this model, so the \<open>catch\<close> blocks that turn
  a failed store call into a generic error have no counterpart.
\<close>

record Store =
  jobs :: "(string \<times> Job) list"
  users :: "(string \<times> User) list"
  job_assignments :: "AssignmentDoc list"

text \<open>A thrown value: \<open>new Error(message)\<close>, or the \<open>TypeError\<close> of the runtime.\<close>

datatype error = Error string | TypeError

text \<open>
  The type of a thrown value, as \<open>error.name\<close> and \<open>instanceof\<close> see it. The source
  declares no error class of its own: every \<open>throw\<close> is \<open>new Error(message)\<close>.
\<close>

fun errorName :: "error \<Rightarrow> string" where
  "errorName (Error message) = ''Error''"
| "errorName TypeError = ''TypeError''"

text \<open>
  The kinds of \<open>AssignmentError\<close> that the specification names (section 4.4). They
  are the specification's words only; nothing in the source has them.
\<close>

datatype spec_AssignmentError = NotFound | InvalidState | TechnicianUnavailable | ValidationFailed

subsection \<open>Queries\<close>

text \<open>
  A query on the jobs collection is the list of the constraints given to \<open>query(...)\<close>,
  in the order the code adds them. How the store answers a query is outside the code:
  every operation that runs a query takes the store's \<open>getDocs\<close> as a parameter, a
  function from queries to the documents returned.
\<close>

datatype Direction = Asc | Desc

datatype QueryConstraint =
    OrderBy string Direction
  | Limit nat
  | WhereIn string "string list"
  | WhereEq string string
  | WhereGe string int
  | WhereLe string int
  | StartAfter string Job

type_synonym Query = "QueryConstraint list"

type_synonym Snapshot = "(string \<times> Job) list"

record GeoFilter =
  latitude_flt :: real
  longitude_flt :: real
  radius :: real

record JobFilter =
  status_flt :: "JobStatus list option"
  priority_flt :: "JobPriority list option"
  type_flt :: "JobType list option"
  assignedTechnicianId_flt :: "string option"
  dateRange_flt :: "(int \<times> int) option"
  location_flt :: "GeoFilter option"
  searchText_flt :: "string option"

section \<open>The job service (services/index.web.ts)\<close>

subsection \<open>convertFirestoreToJob, getJobById\<close>

text \<open>\<open>data.notes || []\<close>: the empty string is falsy, an array is truthy.\<close>

fun orEmptyArray :: "Notes \<Rightarrow> Notes" where
  "orEmptyArray (NotesString s) = (if s = [] then NotesArray [] else NotesString s)"
| "orEmptyArray (NotesArray xs) = NotesArray xs"

definition convertFirestoreToJob :: "Job \<Rightarrow> Job" where
  "convertFirestoreToJob data =
     data\<lparr>notes_job := orEmptyArray (notes_job data),
          internalNotes := orEmptyArray (internalNotes data),
          photos := Some (case photos data of None \<Rightarrow> [] | Some ps \<Rightarrow> ps)\<rparr>"

definition getJobById :: "Store \<Rightarrow> string \<Rightarrow> Job option" where
  "getJobById s jid =
     (case map_of (jobs s) jid of
        None \<Rightarrow> None
      | Some data \<Rightarrow> Some (convertFirestoreToJob data))"

subsection \<open>updateJob\<close>

text \<open>
  \<open>validTransitions[currentStatus]\<close> is an array only when the stored status is one of
  the six keys of the table; otherwise calling \<open>.includes\<close> on it throws a
  \<open>TypeError\<close>.
\<close>

definition lookupStatus :: "string \<Rightarrow> JobStatus option" where
  "lookupStatus v =
     (if v = ''pending'' then Some PENDING
      else if v = ''assigned'' then Some ASSIGNED
      else if v = ''in_progress'' then Some IN_PROGRESS
      else if v = ''completed'' then Some COMPLETED
      else if v = ''cancelled'' then Some CANCELLED
      else if v = ''on_hold'' then Some ON_HOLD
      else None)"

text \<open>
  The first check of \<open>updateJob\<close>:
  \<open>if (updates.status && updates.status !== currentJob.status) { ... }\<close>.
  The result is the error thrown, if any.
\<close>

definition checkStatusTransition :: "Job \<Rightarrow> JobUpdate \<Rightarrow> error option" where
  "checkStatusTransition currentJob updates =
     (case status_upd updates of
        None \<Rightarrow> None
      | Some newStatus \<Rightarrow>
          if JobStatus_value newStatus \<noteq> status currentJob then
            (case lookupStatus (status currentJob) of
               None \<Rightarrow> Some TypeError
             | Some currentStatus \<Rightarrow>
                 let statusValidation = validateStatusTransition currentStatus newStatus in
                 if \<not> isValid statusValidation
                 then Some (Error (''Status transition validation failed: ''
                                   @ join '', '' (errors statusValidation)))
                 else None)
          else None)"

text \<open>The second check: \<open>if (updates.status === JobStatus.COMPLETED) { ... }\<close>.\<close>

definition checkCompletion :: "JobUpdate \<Rightarrow> error option" where
  "checkCompletion updates =
     (if status_upd updates = Some COMPLETED then
        let completionValidation = validateJobCompletion updates in
        if \<not> isValid completionValidation
        then Some (Error (''Completion validation failed: ''
                          @ join '', '' (errors completionValidation)))
        else None
      else None)"

text \<open>
  \<open>updateData\<close>: the sanitized payload, with \<open>startedAt\<close> and \<open>completedAt\<close> stamped
  with the current time when the job enters \<open>in_progress\<close> or \<open>completed\<close> and has no
  such time yet. \<open>updatedAt\<close> is passed to \<open>updateDoc\<close> beside it.
\<close>

definition updateData :: "int \<Rightarrow> Job \<Rightarrow> JobUpdate \<Rightarrow> JobUpdate" where
  "updateData now currentJob updates =
     (let sanitizedUpdates = sanitizeJobData updates;
          d1 = (if status_upd updates = Some IN_PROGRESS \<and> startedAt currentJob = None
                then sanitizedUpdates\<lparr>startedAt_upd := Some now\<rparr> else sanitizedUpdates);
          d2 = (if status_upd updates = Some COMPLETED \<and> completedAt currentJob = None
                then d1\<lparr>completedAt_upd := Some now\<rparr> else d1)
      in d2)"

text \<open>\<open>updateDoc(docRef, updateData)\<close>: every field present in the payload replaces
  the document's field; the other fields stay.\<close>

definition orElse :: "'a option \<Rightarrow> 'a option \<Rightarrow> 'a option" where
  "orElse new old = (case new of None \<Rightarrow> old | Some v \<Rightarrow> Some v)"

definition updateDoc :: "Job \<Rightarrow> JobUpdate \<Rightarrow> int \<Rightarrow> Job" where
  "updateDoc data u now =
     data\<lparr>status := (case status_upd u of None \<Rightarrow> status data | Some st \<Rightarrow> JobStatus_value st),
          notes_job := (case notes_upd u of None \<Rightarrow> notes_job data | Some n \<Rightarrow> NotesString n),
          internalNotes :=
            (case internalNotes_upd u of None \<Rightarrow> internalNotes data | Some n \<Rightarrow> NotesString n),
          startedAt := orElse (startedAt_upd u) (startedAt data),
          completedAt := orElse (completedAt_upd u) (completedAt data),
          actualDuration := orElse (actualDuration_upd u) (actualDuration data),
          completionNotes := orElse (completionNotes_upd u) (completionNotes data),
          customerSignature := orElse (customerSignature_upd u) (customerSignature data),
          photos := orElse (photos_upd u) (photos data),
          workSummary := orElse (workSummary_upd u) (workSummary data),
          updatedAt := now\<rparr>"

text \<open>
  \<open>updateJob\<close> returns the error thrown or \<open>()\<close>, and the store after the call.
  \<open>now\<close> is the value of \<open>new Date()\<close>.
\<close>

definition updateJob :: "int \<Rightarrow> string \<Rightarrow> JobUpdate \<Rightarrow> Store \<Rightarrow> (error + unit) \<times> Store" where
  "updateJob now jid updates s =
     (case getJobById s jid of
        None \<Rightarrow> (Inl (Error ''Job not found''), s)
      | Some currentJob \<Rightarrow>
          (case checkStatusTransition currentJob updates of
             Some e \<Rightarrow> (Inl e, s)
           | None \<Rightarrow>
               (case checkCompletion updates of
                  Some e \<Rightarrow> (Inl e, s)
                | None \<Rightarrow>
                    (Inr (),
                     s\<lparr>jobs := AList.map_entry jid
                           (\<lambda>data. updateDoc data (updateData now currentJob updates) now)
                           (jobs s)\<rparr>))))"

subsection \<open>assignJob\<close>

definition assignJob :: "int \<Rightarrow> JobAssignment \<Rightarrow> Store \<Rightarrow> (error + unit) \<times> Store" where
  "assignJob now assignment s =
     (let validation = validateJobAssignment (jobId assignment) (technicianId assignment)
                         (assignedBy_asg assignment) in
      if \<not> isValid validation then
        (Inl (Error (''Assignment validation failed: '' @ join '', '' (errors validation))), s)
      else
        (case getJobById s (jobId assignment) of
           None \<Rightarrow> (Inl (Error ''Job not found''), s)
         | Some job \<Rightarrow>
             if status job \<noteq> JobStatus_value PENDING then
               (Inl (Error (''Job cannot be assigned. Current status: '' @ status job)), s)
             else
               (case map_of (users s) (technicianId assignment) of
                  None \<Rightarrow> (Inl (Error ''Technician not found''), s)
                | Some technician \<Rightarrow>
                    if \<not> isActive technician then
                      (Inl (Error ''Technician is not active''), s)
                    else if role technician \<noteq> ''technician'' then
                      (Inl (Error ''User is not a technician''), s)
                    else
                      (Inr (),
                       s\<lparr>jobs := AList.map_entry (jobId assignment)
                             (\<lambda>data. data\<lparr>assignedTechnicianId := Some (technicianId assignment),
                                          assignedBy := Some (assignedBy_asg assignment),
                                          assignedAt := Some (assignedAt_asg assignment),
                                          status := JobStatus_value ASSIGNED,
                                          updatedAt := now\<rparr>)
                             (jobs s),
                         job_assignments := job_assignments s @
                           [\<lparr>jobId = jobId assignment,
                             technicianId = technicianId assignment,
                             assignedBy_asg = assignedBy_asg assignment,
                             assignedAt_asg = assignedAt_asg assignment,
                             notes_asg = notes_asg assignment,
                             assignmentReason = ''manual''\<rparr>]\<rparr>))))"

subsection \<open>calculateDistance\<close>

text \<open>
  \<open>calculateDistance\<close> in exact arithmetic: the numbers are reals and no operation
  rounds. This is the value the source aims at, and the value it returns up to rounding
  as long as its sum \<open>a\<close>, as computed in doubles, stays between 0 and 1. Near
  antipodal points the exact \<open>a\<close> is 1 or close to it and the computed \<open>a\<close> can
  exceed 1; what the source returns then is the subject of \<open>distanceOfSum\<close> below,
  not of this definition. \<open>Math.atan2(y, x)\<close> is the angle of the point \<open>(x, y)\<close>,
  defined from \<open>arctan\<close> quadrant by quadrant.
\<close>

definition atan2 :: "real \<Rightarrow> real \<Rightarrow> real" where
  "atan2 y x =
     (if x > 0 then arctan (y / x)
      else if x < 0 \<and> y \<ge> 0 then arctan (y / x) + pi
      else if x < 0 then arctan (y / x) - pi
      else if y > 0 then pi / 2
      else if y < 0 then - (pi / 2)
      else 0)"

definition toRadians :: "real \<Rightarrow> real" where
  "toRadians degrees = degrees * (pi / 180)"

definition calculateDistance :: "real \<Rightarrow> real \<Rightarrow> real \<Rightarrow> real \<Rightarrow> real" where
  "calculateDistance lat1 lon1 lat2 lon2 =
     (let R = 6371;
          dLat = toRadians (lat2 - lat1);
          dLon = toRadians (lon2 - lon1);
          a = sin (dLat / 2) * sin (dLat / 2) +
              cos (toRadians lat1) * cos (toRadians lat2) * sin (dLon / 2) * sin (dLon / 2);
          c = 2 * atan2 (sqrt a) (sqrt (1 - a))
      in R * c)"

subsection \<open>getJobs\<close>

text \<open>
  \<open>String.prototype.toLowerCase\<close> on the code units 0 to 255: the letters A to Z and
  the capital letters of Latin-1 (192 to 222 but 215) move up by 32.
\<close>

definition toLowerCaseChar :: "char \<Rightarrow> char" where
  "toLowerCaseChar c =
     (let n = (of_char c :: nat) in
      if (65 \<le> n \<and> n \<le> 90) \<or> (192 \<le> n \<and> n \<le> 214) \<or> (216 \<le> n \<and> n \<le> 222)
      then char_of (n + 32) else c)"

definition toLowerCase :: "string \<Rightarrow> string" where
  "toLowerCase s = map toLowerCaseChar s"

text \<open>\<open>s.includes(t)\<close>: \<open>t\<close> occurs in \<open>s\<close> as a run of consecutive code units.\<close>

fun includes_str :: "string \<Rightarrow> string \<Rightarrow> bool" where
  "includes_str [] t = (t = [])"
| "includes_str (c # cs) t = (prefix t (c # cs) \<or> includes_str cs t)"

text \<open>The query that \<open>getJobs\<close> hands to \<open>getDocs\<close>.\<close>

definition getJobsQuery :: "Store \<Rightarrow> JobFilter option \<Rightarrow> nat \<Rightarrow> string option \<Rightarrow> Query" where
  "getJobsQuery s jobFilter pageSize lastJobId =
     [OrderBy ''createdAt'' Desc, Limit (pageSize + 1)]
     @ (case jobFilter of
          None \<Rightarrow> []
        | Some f \<Rightarrow>
            (case status_flt f of
               Some sts \<Rightarrow>
                 if length sts > 0 then [WhereIn ''status'' (map JobStatus_value sts)] else []
             | None \<Rightarrow> [])
            @ (case priority_flt f of
                 Some ps \<Rightarrow>
                   if length ps > 0 then [WhereIn ''priority'' (map JobPriority_value ps)] else []
               | None \<Rightarrow> [])
            @ (case type_flt f of
                 Some ts \<Rightarrow>
                   if length ts > 0 then [WhereIn ''type'' (map JobType_value ts)] else []
               | None \<Rightarrow> [])
            @ (case assignedTechnicianId_flt f of
                 Some t \<Rightarrow> if t \<noteq> [] then [WhereEq ''assignedTechnicianId'' t] else []
               | None \<Rightarrow> [])
            @ (case dateRange_flt f of
                 Some (start, end) \<Rightarrow>
                   [WhereGe ''scheduledDate'' start, WhereLe ''scheduledDate'' end]
               | None \<Rightarrow> []))
     @ (case lastJobId of
          None \<Rightarrow> []
        | Some jid \<Rightarrow>
            if jid \<noteq> [] then
              (case map_of (jobs s) jid of
                 Some lastJobDoc \<Rightarrow> [StartAfter jid lastJobDoc]
               | None \<Rightarrow> [])
            else [])"

text \<open>
  The loop over the snapshot:
  \<open>if (jobs.length < pageSize) jobs.push(convertFirestoreToJob(doc.id, doc.data()))\<close>.
\<close>

definition pushJob :: "nat \<Rightarrow> Snapshot \<Rightarrow> string \<times> Job \<Rightarrow> Snapshot" where
  "pushJob pageSize js d =
     (if length js < pageSize then js @ [(fst d, convertFirestoreToJob (snd d))] else js)"

text \<open>The two filters applied after retrieval.\<close>

definition matchesSearchText :: "string \<Rightarrow> string \<times> Job \<Rightarrow> bool" where
  "matchesSearchText searchLower job =
     (includes_str (toLowerCase (title (snd job))) searchLower
      \<or> includes_str (toLowerCase (description (snd job))) searchLower
      \<or> includes_str (toLowerCase (name (customer (snd job)))) searchLower
      \<or> includes_str (toLowerCase (address (location (snd job)))) searchLower)"

definition withinRadius :: "GeoFilter \<Rightarrow> string \<times> Job \<Rightarrow> bool" where
  "withinRadius g job =
     (let distance = calculateDistance (latitude_flt g) (longitude_flt g)
                       (latitude (location (snd job))) (longitude (location (snd job)))
      in distance \<le> radius g)"

record JobsPage =
  jobs_page :: Snapshot
  hasMore :: bool

definition getJobs ::
  "(Query \<Rightarrow> Snapshot) \<Rightarrow> Store \<Rightarrow> JobFilter option \<Rightarrow> nat \<Rightarrow> string option \<Rightarrow> JobsPage" where
  "getJobs getDocs s jobFilter pageSize lastJobId =
     (let querySnapshot = getDocs (getJobsQuery s jobFilter pageSize lastJobId);
          js = foldl (pushJob pageSize) [] querySnapshot;
          more = length querySnapshot > pageSize;
          filteredJobs =
            (case jobFilter of
               None \<Rightarrow> js
             | Some f \<Rightarrow>
                 let byText =
                       (case searchText_flt f of
                          Some t \<Rightarrow>
                            if t \<noteq> [] then List.filter (matchesSearchText (toLowerCase t)) js
                            else js
                        | None \<Rightarrow> js)
                 in (case location_flt f of
                       Some g \<Rightarrow> List.filter (withinRadius g) byText
                     | None \<Rightarrow> byText))
      in \<lparr>jobs_page = filteredJobs, hasMore = more\<rparr>)"

subsection \<open>getJobStats\<close>

record JobStats =
  total_jobs :: nat
  pending :: nat
  assigned :: nat
  inProgress :: nat
  completed :: nat
  cancelled :: nat
  onHold :: nat

text \<open>The body of the loop: \<open>stats.total++\<close>, then the \<open>switch\<close> on the status,
  which has no \<open>default\<close> case.\<close>

definition countJob :: "JobStats \<Rightarrow> string \<times> Job \<Rightarrow> JobStats" where
  "countJob stats d =
     (let job = snd d;
          stats = stats\<lparr>total_jobs := total_jobs stats + 1\<rparr>
      in if status job = JobStatus_value PENDING then stats\<lparr>pending := pending stats + 1\<rparr>
         else if status job = JobStatus_value ASSIGNED then stats\<lparr>assigned := assigned stats + 1\<rparr>
         else if status job = JobStatus_value IN_PROGRESS
           then stats\<lparr>inProgress := inProgress stats + 1\<rparr>
         else if status job = JobStatus_value COMPLETED
           then stats\<lparr>completed := completed stats + 1\<rparr>
         else if status job = JobStatus_value CANCELLED
           then stats\<lparr>cancelled := cancelled stats + 1\<rparr>
         else if status job = JobStatus_value ON_HOLD then stats\<lparr>onHold := onHold stats + 1\<rparr>
         else stats)"

definition getJobStatsQuery :: "(int \<times> int) option \<Rightarrow> Query" where
  "getJobStatsQuery dateRange =
     (case dateRange of
        None \<Rightarrow> []
      | Some (start, end) \<Rightarrow> [WhereGe ''createdAt'' start, WhereLe ''createdAt'' end])"

definition getJobStats :: "(Query \<Rightarrow> Snapshot) \<Rightarrow> (int \<times> int) option \<Rightarrow> JobStats" where
  "getJobStats getDocs dateRange =
     foldl countJob
       \<lparr>total_jobs = 0, pending = 0, assigned = 0, inProgress = 0, completed = 0,
        cancelled = 0, onHold = 0\<rparr>
       (getDocs (getJobStatsQuery dateRange))"

text \<open>The sum of the six counters of a status.\<close>

definition buckets :: "JobStats \<Rightarrow> nat" where
  "buckets st =
     pending st + assigned st + inProgress st + completed st + cancelled st + onHold st"

subsection \<open>getJobRecommendations\<close>

text \<open>
  The score is a JavaScript number that a division produces, and the divisor can be 0:
  beside the reals the model has the three values that a division by zero yields.
  The operations are those of IEEE 754 on these values, without rounding.
\<close>

datatype number = Num real | PosInfinity | NegInfinity | NaN

definition jsDiv :: "real \<Rightarrow> real \<Rightarrow> number" where
  "jsDiv a b =
     (if b \<noteq> 0 then Num (a / b)
      else if a > 0 then PosInfinity
      else if a < 0 then NegInfinity
      else NaN)"

fun jsTimes :: "number \<Rightarrow> real \<Rightarrow> number" where
  "jsTimes (Num a) b = Num (a * b)"
| "jsTimes NaN b = NaN"
| "jsTimes PosInfinity b = (if b > 0 then PosInfinity else if b < 0 then NegInfinity else NaN)"
| "jsTimes NegInfinity b = (if b > 0 then NegInfinity else if b < 0 then PosInfinity else NaN)"

fun jsPlus :: "number \<Rightarrow> number \<Rightarrow> number" where
  "jsPlus (Num a) (Num b) = Num (a + b)"
| "jsPlus NaN v = NaN"
| "jsPlus v NaN = NaN"
| "jsPlus PosInfinity NegInfinity = NaN"
| "jsPlus NegInfinity PosInfinity = NaN"
| "jsPlus PosInfinity v = PosInfinity"
| "jsPlus NegInfinity v = NegInfinity"
| "jsPlus (Num a) PosInfinity = PosInfinity"
| "jsPlus (Num a) NegInfinity = NegInfinity"

fun jsMinus :: "number \<Rightarrow> number \<Rightarrow> number" where
  "jsMinus (Num a) (Num b) = Num (a - b)"
| "jsMinus NaN v = NaN"
| "jsMinus v NaN = NaN"
| "jsMinus PosInfinity PosInfinity = NaN"
| "jsMinus NegInfinity NegInfinity = NaN"
| "jsMinus PosInfinity v = PosInfinity"
| "jsMinus NegInfinity v = NegInfinity"
| "jsMinus (Num a) PosInfinity = NegInfinity"
| "jsMinus (Num a) NegInfinity = PosInfinity"

text \<open>\<open>v > 0\<close> on a number: false for \<open>NaN\<close>.\<close>

fun positive :: "number \<Rightarrow> bool" where
  "positive (Num a) = (a > 0)"
| "positive PosInfinity = True"
| "positive v = False"

text \<open>
  \<open>Array.prototype.sort(compare)\<close> is stable, and puts \<open>x\<close> after \<open>y\<close> when
  \<open>compare(x, y) > 0\<close>: a stable insertion sort. Where \<open>compare\<close> is not a
  consistent ordering (a \<open>NaN\<close> among the scores) the language leaves the order to
  the implementation, and this is one such order.
\<close>

fun insertBy :: "('a \<Rightarrow> 'a \<Rightarrow> number) \<Rightarrow> 'a \<Rightarrow> 'a list \<Rightarrow> 'a list" where
  "insertBy compare x [] = [x]"
| "insertBy compare x (y # ys) =
     (if positive (compare x y) then y # insertBy compare x ys else x # y # ys)"

definition sortBy :: "('a \<Rightarrow> 'a \<Rightarrow> number) \<Rightarrow> 'a list \<Rightarrow> 'a list" where
  "sortBy compare xs = foldr (insertBy compare) xs []"

fun priorityScores :: "JobPriority \<Rightarrow> real" where
  "priorityScores URGENT = 30"
| "priorityScores HIGH = 20"
| "priorityScores MEDIUM = 10"
| "priorityScores LOW = 5"

text \<open>
  The score of one job, as the loop computes it: \<open>score\<close> starts at 0 and grows by
  the skill match, by the priority (\<open>priorityScores[job.priority] || 0\<close>, where the
  priority of a \<open>Job\<close> is always a key of the table) and, when the technician has a
  current location, by the points of the distance.
\<close>

definition skillScore :: "string list \<Rightarrow> Job \<Rightarrow> number" where
  "skillScore technicianSkills job =
     (let requiredSkills = skills (requirements job);
          matchingSkills = List.filter (\<lambda>skill. skill \<in> set technicianSkills) requiredSkills
      in jsTimes (jsDiv (real (length matchingSkills)) (real (length requiredSkills))) 50)"

definition jobScore :: "string list \<Rightarrow> CurrentLocation option \<Rightarrow> Job \<Rightarrow> number" where
  "jobScore technicianSkills technicianLocation job =
     (let score = Num 0;
          score = jsPlus score (skillScore technicianSkills job);
          score = jsPlus score (Num (priorityScores (priority job)));
          score =
            (case technicianLocation of
               None \<Rightarrow> score
             | Some l \<Rightarrow>
                 let distance = calculateDistance (latitude_loc l) (longitude_loc l)
                                  (latitude (location job)) (longitude (location job))
                 in if distance \<le> 5 then jsPlus score (Num 20)
                    else if distance \<le> 10 then jsPlus score (Num 15)
                    else if distance \<le> 20 then jsPlus score (Num 10)
                    else if distance \<le> 50 then jsPlus score (Num 5)
                    else score)
      in score)"

definition getJobRecommendationsQuery :: "nat \<Rightarrow> Query" where
  "getJobRecommendationsQuery maxResults =
     [WhereEq ''status'' (JobStatus_value PENDING), OrderBy ''priority'' Desc,
      Limit (maxResults * 2)]"

text \<open>
  The jobs with their scores, before the sort. A missing technician throws inside the
  \<open>try\<close> block, and the \<open>catch\<close> of this function replaces every error by its own.
\<close>

definition scoredJobs ::
  "string list \<Rightarrow> CurrentLocation option \<Rightarrow> Snapshot \<Rightarrow> ((string \<times> Job) \<times> number) list" where
  "scoredJobs technicianSkills technicianLocation querySnapshot =
     map (\<lambda>d. let job = convertFirestoreToJob (snd d)
              in ((fst d, job), jobScore technicianSkills technicianLocation job))
       querySnapshot"

definition getJobRecommendations ::
  "(Query \<Rightarrow> Snapshot) \<Rightarrow> Store \<Rightarrow> string \<Rightarrow> nat \<Rightarrow> error + Snapshot" where
  "getJobRecommendations getDocs s technicianId' maxResults =
     (case map_of (users s) technicianId' of
        None \<Rightarrow> Inl (Error ''Failed to get job recommendations'')
      | Some technician \<Rightarrow>
          let technicianSkills = (case skills_user technician of Some sk \<Rightarrow> sk | None \<Rightarrow> []);
              technicianLocation = currentLocation technician;
              querySnapshot = getDocs (getJobRecommendationsQuery maxResults);
              js = scoredJobs technicianSkills technicianLocation querySnapshot
          in Inr (map fst (take maxResults (sortBy (\<lambda>a b. jsMinus (snd b) (snd a)) js))))"

text \<open>
  A list of scored jobs is sorted by descending score when every score is a real and
  no job comes before a job with a greater score.
\<close>

definition descending :: "('a \<times> number) list \<Rightarrow> bool" where
  "descending xs = sorted_wrt (\<lambda>x y. \<exists>a b. snd x = Num a \<and> snd y = Num b \<and> b \<le> a) xs"

text \<open>The points of a distance as the specification words them (section 4.6).\<close>

definition spec_distanceScore :: "real \<Rightarrow> real" where
  "spec_distanceScore km =
     (if km \<le> 5 then 20 else if km \<le> 10 then 15 else if km \<le> 20 then 10
      else if km \<le> 50 then 5 else 0)"

subsection \<open>calculateDistance, from the computed sum on\<close>

text \<open>The sum \<open>a\<close> of \<open>calculateDistance\<close>, in exact arithmetic.\<close>

definition haversineSum :: "real \<Rightarrow> real \<Rightarrow> real \<Rightarrow> real \<Rightarrow> real" where
  "haversineSum lat1 lon1 lat2 lon2 =
     sin (toRadians (lat2 - lat1) / 2) * sin (toRadians (lat2 - lat1) / 2) +
     cos (toRadians lat1) * cos (toRadians lat2)
       * sin (toRadians (lon2 - lon1) / 2) * sin (toRadians (lon2 - lon1) / 2)"

text \<open>
  The last two lines of \<open>calculateDistance\<close>,
  \<open>c = 2 * Math.atan2(Math.sqrt(a), Math.sqrt(1 - a)); return R * c\<close>, for a sum
  \<open>a\<close> as the doubles give it, which need not lie between 0 and 1. \<open>Math.sqrt\<close> of
  a negative number is \<open>NaN\<close>, \<open>Math.atan2\<close> with a \<open>NaN\<close> argument is \<open>NaN\<close>, and
  a product with \<open>NaN\<close> is \<open>NaN\<close>. From the sum on, rounding is again left out.
\<close>

definition jsSqrt :: "real \<Rightarrow> number" where
  "jsSqrt x = (if x < 0 then NaN else Num (sqrt x))"

fun jsAtan2 :: "number \<Rightarrow> number \<Rightarrow> number" where
  "jsAtan2 (Num y) (Num x) = Num (atan2 y x)"
| "jsAtan2 NaN x = NaN"
| "jsAtan2 y NaN = NaN"
| "jsAtan2 PosInfinity PosInfinity = Num (pi / 4)"
| "jsAtan2 PosInfinity NegInfinity = Num (3 * pi / 4)"
| "jsAtan2 NegInfinity PosInfinity = Num (- (pi / 4))"
| "jsAtan2 NegInfinity NegInfinity = Num (- (3 * pi / 4))"
| "jsAtan2 PosInfinity (Num x) = Num (pi / 2)"
| "jsAtan2 NegInfinity (Num x) = Num (- (pi / 2))"
| "jsAtan2 (Num y) PosInfinity = Num 0"
| "jsAtan2 (Num y) NegInfinity = (if y < 0 then Num (- pi) else Num pi)"

definition distanceOfSum :: "real \<Rightarrow> number" where
  "distanceOfSum a =
     (let R = 6371;
          c = jsTimes (jsAtan2 (jsSqrt a) (jsSqrt (1 - a))) 2
      in jsTimes c R)"



section \<open>Example data\<close>

text \<open>
  Concrete documents and payloads, on which the theorems below are instantiated: a
  pending, urgent job at the origin that requires the skill cabling, an active
  technician who has it, an update payload with no field, and a store that holds them.
\<close>

definition job1 :: Job where
  "job1 =
     \<lparr>title = ''Router'', description = ''Install a router'', status = ''pending'',
      priority = URGENT, customer = \<lparr>name = ''Asha''\<rparr>,
      location = \<lparr>address = ''12 Main Road'', latitude = 0, longitude = 0\<rparr>,
      assignedTechnicianId = None, assignedBy = None, assignedAt = None,
      scheduledDate = 1000, requirements = \<lparr>skills = [''cabling'']\<rparr>,
      startedAt = None, completedAt = None, actualDuration = None,
      notes_job = NotesArray [], internalNotes = NotesArray [],
      createdAt = 10, updatedAt = 10, completionNotes = None, customerSignature = None,
      photos = None, workSummary = None\<rparr>"

definition tech1 :: User where
  "tech1 =
     \<lparr>isActive = True, role = ''technician'', skills_user = Some [''cabling''],
      currentLocation = Some \<lparr>latitude_loc = 0, longitude_loc = 0\<rparr>\<rparr>"

definition noUpdate :: JobUpdate where
  "noUpdate =
     \<lparr>status_upd = None, notes_upd = None, internalNotes_upd = None, startedAt_upd = None,
      completedAt_upd = None, actualDuration_upd = None, completionNotes_upd = None,
      customerSignature_upd = None, photos_upd = None, workSummary_upd = None\<rparr>"

definition store1 :: Store where
  "store1 = \<lparr>jobs = [(''j1'', job1)], users = [(''t1'', tech1)], job_assignments = []\<rparr>"

definition assignment1 :: JobAssignment where
  "assignment1 =
     \<lparr>jobId = ''j1'', technicianId = ''t1'', assignedBy_asg = ''d1'', assignedAt_asg = 20,
      notes_asg = None\<rparr>"

definition noFilter :: JobFilter where
  "noFilter =
     \<lparr>status_flt = None, priority_flt = None, type_flt = None,
      assignedTechnicianId_flt = None, dateRange_flt = None, location_flt = None,
      searchText_flt = None\<rparr>"

text \<open>
  A second job, at the north pole, and a snapshot of three documents, as the store
  returns it for a page size of 2.
\<close>

definition jobPole :: Job where
  "jobPole =
     job1\<lparr>title := ''Switch'',
          location := \<lparr>address = ''North Pole'', latitude = 90, longitude = 0\<rparr>\<rparr>"

definition docs3 :: Snapshot where
  "docs3 = [(''j3'', job1), (''j2'', jobPole), (''j1'', job1)]"

text \<open>
  Three pending jobs in the order of the recommendation query (by priority, descending,
  as strings: urgent, medium, high): the first requires a skill the technician lacks,
  the second requires no skill, the third requires cabling.
\<close>

definition jobA :: Job where
  "jobA = job1\<lparr>requirements := \<lparr>skills = [''welding'']\<rparr>\<rparr>"

definition jobB :: Job where
  "jobB = job1\<lparr>priority := MEDIUM, requirements := \<lparr>skills = []\<rparr>\<rparr>"

definition jobC :: Job where
  "jobC = job1\<lparr>priority := HIGH\<rparr>"

definition pendingDocs :: Snapshot where
  "pendingDocs = [(''a'', jobA), (''b'', jobB), (''c'', jobC)]"

section \<open>The status machine\<close>

lemma validTransitions_table: "set (validTransitions c) = spec_transition_table c"
  by (cases c) auto

text \<open>
  Claim C2. For every pair of statuses that is not in the transition table of the
  specification, \<open>validateStatusTransition\<close> returns the invalid result with the
  message of that pair; every transition out of \<open>completed\<close> or \<open>cancelled\<close>, the
  self-transitions too, is rejected; and the pairs of the table are the only ones
  accepted.
\<close>

theorem validateStatusTransition_rejects:
  "(newStatus \<notin> spec_transition_table currentStatus \<longrightarrow>
      validateStatusTransition currentStatus newStatus =
        \<lparr>isValid = False,
         errors = [''Invalid status transition from '' @ JobStatus_value currentStatus
                   @ '' to '' @ JobStatus_value newStatus]\<rparr>)
   \<and> (currentStatus = COMPLETED \<or> currentStatus = CANCELLED \<longrightarrow>
        \<not> isValid (validateStatusTransition currentStatus newStatus))
   \<and> isValid (validateStatusTransition currentStatus newStatus) =
        (newStatus \<in> spec_transition_table currentStatus)"
proof -
  have tab: "set (validTransitions currentStatus) = spec_transition_table currentStatus"
    by (rule validTransitions_table)
  have a: "newStatus \<notin> spec_transition_table currentStatus \<longrightarrow>
      validateStatusTransition currentStatus newStatus =
        \<lparr>isValid = False,
         errors = [''Invalid status transition from '' @ JobStatus_value currentStatus
                   @ '' to '' @ JobStatus_value newStatus]\<rparr>"
    unfolding validateStatusTransition_def tab by (simp add: mkResult_def)
  have c: "isValid (validateStatusTransition currentStatus newStatus) =
        (newStatus \<in> spec_transition_table currentStatus)"
    unfolding validateStatusTransition_def tab by (simp add: mkResult_def)
  have b: "currentStatus = COMPLETED \<or> currentStatus = CANCELLED \<longrightarrow>
        \<not> isValid (validateStatusTransition currentStatus newStatus)"
    unfolding c by auto
  from a b c show ?thesis by blast
qed

theorem validateStatusTransition_rejects_witness:
  "COMPLETED \<notin> spec_transition_table COMPLETED
   \<and> validateStatusTransition COMPLETED COMPLETED =
        \<lparr>isValid = False,
         errors = [''Invalid status transition from completed to completed'']\<rparr>
   \<and> IN_PROGRESS \<notin> spec_transition_table PENDING
   \<and> \<not> isValid (validateStatusTransition PENDING IN_PROGRESS)
   \<and> \<not> isValid (validateStatusTransition CANCELLED PENDING)"
  using validateStatusTransition_rejects [of COMPLETED COMPLETED]
    validateStatusTransition_rejects [of IN_PROGRESS PENDING]
    validateStatusTransition_rejects [of PENDING CANCELLED]
  by simp

lemma validateStatusTransition_self:
  "\<not> isValid (validateStatusTransition st st)"
  unfolding validateStatusTransition_def validTransitions_table
  by (cases st) (simp_all add: mkResult_def)

section \<open>Sanitizing twice\<close>

lemma set_trim: "set (trim s) \<subseteq> set s"
proof -
  have "set (trim s) = set (dropWhile isWhiteSpace (rev (dropWhile isWhiteSpace s)))"
    by (simp add: trim_def)
  also have "\<dots> \<subseteq> set (rev (dropWhile isWhiteSpace s))"
    by (meson set_dropWhileD subsetI)
  also have "\<dots> \<subseteq> set s"
    using set_dropWhileD by fastforce
  finally show ?thesis .
qed

lemma length_trim: "length (trim s) \<le> length s"
proof -
  have "length (dropWhile isWhiteSpace (rev (dropWhile isWhiteSpace s)))
          \<le> length (rev (dropWhile isWhiteSpace s))"
    by (rule length_dropWhile_le)
  moreover have "length (dropWhile isWhiteSpace s) \<le> length s"
    by (rule length_dropWhile_le)
  ultimately show ?thesis by (simp add: trim_def)
qed

text \<open>Trimming is idempotent: a trimmed string starts and ends with no white space.\<close>

lemma trim_trim: "trim (trim s) = trim s"
proof -
  define d where "d = dropWhile isWhiteSpace s"
  have t: "trim s = rev (dropWhile isWhiteSpace (rev d))"
    by (simp add: trim_def d_def)
  show ?thesis
  proof (cases d)
    case Nil
    then have "trim s = []" by (simp add: t)
    moreover have "trim [] = []" by (simp add: trim_def)
    ultimately show ?thesis by simp
  next
    case (Cons h r)
    have "\<not> isWhiteSpace (hd d)"
      unfolding d_def using Cons d_def hd_dropWhile [of isWhiteSpace s] by simp
    then have nw: "\<not> isWhiteSpace h" by (simp add: Cons)
    have "dropWhile isWhiteSpace (rev d) = dropWhile isWhiteSpace (rev r) @ [h]"
      using nw by (simp add: Cons dropWhile_append3)
    then have "trim s = h # rev (dropWhile isWhiteSpace (rev r))"
      by (simp add: t)
    then have front: "dropWhile isWhiteSpace (trim s) = trim s"
      using nw by simp
    have "dropWhile isWhiteSpace (rev (trim s)) = rev (trim s)"
      by (simp add: t)
    then show ?thesis
      unfolding trim_def [of "trim s"] front by simp
  qed
qed

lemma set_sanitizeString:
  "set (sanitizeString x) \<inter> {CHR ''<'', CHR ''>'', CHR 0x27, CHR 0x22} = {}"
  unfolding sanitizeString_def by (auto dest!: in_set_takeD)

lemma length_sanitizeString: "length (sanitizeString x) \<le> 1000"
  by (simp add: sanitizeString_def)

text \<open>On a string that is already clean and short, only the trimming is left.\<close>

lemma sanitizeString_clean:
  assumes "set y \<inter> {CHR ''<'', CHR ''>'', CHR 0x27, CHR 0x22} = {}" and "length y \<le> 1000"
  shows "sanitizeString y = trim y"
proof -
  have s: "set (trim y) \<inter> {CHR ''<'', CHR ''>'', CHR 0x27, CHR 0x22} = {}"
    using assms(1) set_trim [of y] by blast
  have f1: "filter (\<lambda>c. c \<noteq> CHR ''<'' \<and> c \<noteq> CHR ''>'') (trim y) = trim y"
    using s by (intro filter_True) auto
  have f2: "filter (\<lambda>c. c \<noteq> CHR 0x27 \<and> c \<noteq> CHR 0x22) (trim y) = trim y"
    using s by (intro filter_True) auto
  have l: "length (trim y) \<le> 1000"
    using length_trim [of y] assms(2) by linarith
  show ?thesis
    unfolding sanitizeString_def f1 f2 using l by simp
qed

text \<open>
  Claim C5, as stated: \<open>sanitizeString\<close> is idempotent. It is not: the characters are
  stripped after the trimming, so stripping can uncover white space at an end of the
  string, which only a second pass trims.
\<close>

theorem sanitizeString_not_idempotent:
  "sanitizeString (sanitizeString ''< a'') \<noteq> sanitizeString ''< a''"
  by (simp add: sanitizeString_def trim_def isWhiteSpace_def)

text \<open>
  Claim C5, amended. Sanitizing a sanitized string trims it and does nothing else, so
  \<open>sanitizeString\<close> is idempotent at \<open>x\<close> exactly when the sanitized \<open>x\<close> has no
  white space at its ends; a third pass never changes the result of the second; and
  sanitizing \<open>"  <b>Hi</b>  "\<close> yields \<open>"bHi/b"\<close>, which sanitizing again leaves
  unchanged.
\<close>

theorem sanitizeString_twice:
  "sanitizeString (sanitizeString x) = trim (sanitizeString x)
   \<and> (sanitizeString (sanitizeString x) = sanitizeString x) =
       (trim (sanitizeString x) = sanitizeString x)
   \<and> sanitizeString (sanitizeString (sanitizeString x)) = sanitizeString (sanitizeString x)
   \<and> sanitizeString ''  <b>Hi</b>  '' = ''bHi/b''
   \<and> sanitizeString (sanitizeString ''  <b>Hi</b>  '') = sanitizeString ''  <b>Hi</b>  ''"
proof -
  have 1: "sanitizeString (sanitizeString y) = trim (sanitizeString y)" for y
    by (rule sanitizeString_clean [OF set_sanitizeString length_sanitizeString])
  have "sanitizeString (sanitizeString (sanitizeString x)) =
          trim (sanitizeString (sanitizeString x))"
    by (rule 1)
  also have "\<dots> = trim (trim (sanitizeString x))"
    by (simp only: 1)
  also have "\<dots> = trim (sanitizeString x)"
    by (rule trim_trim)
  also have "\<dots> = sanitizeString (sanitizeString x)"
    by (simp only: 1)
  finally have 3:
    "sanitizeString (sanitizeString (sanitizeString x)) = sanitizeString (sanitizeString x)" .
  have 4: "sanitizeString ''  <b>Hi</b>  '' = ''bHi/b''"
    by (simp add: sanitizeString_def trim_def isWhiteSpace_def)
  have 5: "sanitizeString (sanitizeString ''  <b>Hi</b>  '') = sanitizeString ''  <b>Hi</b>  ''"
    unfolding 4 by (simp add: sanitizeString_def trim_def isWhiteSpace_def)
  show ?thesis using 1 [of x] 3 4 5 by simp
qed

theorem sanitizeString_twice_witness:
  "sanitizeString (sanitizeString ''< a'') = trim (sanitizeString ''< a'')
   \<and> sanitizeString ''< a'' = '' a''
   \<and> sanitizeString (sanitizeString ''< a'') = ''a''"
  using sanitizeString_twice [of "''< a''"]
  by (simp add: sanitizeString_def trim_def isWhiteSpace_def)

section \<open>Completion payloads\<close>

text \<open>
  When \<open>validateJobCompletion\<close> reports an error: the rule of the duration fires for
  the negative durations only, since the number 0 is falsy.
\<close>

lemma validateJobCompletion_errors:
  "(errors (validateJobCompletion d) \<noteq> []) =
     ((\<exists>s. completionNotes_upd d = Some s \<and> length s > 1000)
      \<or> (\<exists>s. workSummary_upd d = Some s \<and> length s > 2000)
      \<or> (\<exists>n. actualDuration_upd d = Some n \<and> n < 0)
      \<or> (\<exists>ps. photos_upd d = Some ps \<and> length ps > 10))"
  by (auto simp: validateJobCompletion_def mkResult_def truthy_string_def truthy_number_def
      split: option.splits)

lemma validateJobCompletion_isValid:
  "isValid (validateJobCompletion d) = (errors (validateJobCompletion d) = [])"
  by (simp add: validateJobCompletion_def mkResult_def)

text \<open>
  Claim C8 at the payload \<open>{ actualDuration: 0 }\<close>: the duration is present and not
  greater than 0, and \<open>validateJobCompletion\<close> reports no error.
\<close>

theorem validateJobCompletion_zero_duration:
  "validateJobCompletion (noUpdate\<lparr>actualDuration_upd := Some 0\<rparr>)
     = \<lparr>isValid = True, errors = []\<rparr>"
  by (simp add: validateJobCompletion_def mkResult_def noUpdate_def truthy_number_def)

section \<open>Job statistics\<close>

lemma range_JobStatus_value:
  "range JobStatus_value =
     {''pending'', ''assigned'', ''in_progress'', ''completed'', ''cancelled'', ''on_hold''}"
proof -
  have "UNIV = {PENDING, ASSIGNED, IN_PROGRESS, COMPLETED, CANCELLED, ON_HOLD}"
    using JobStatus.exhaust by auto
  then have "range JobStatus_value =
     JobStatus_value ` {PENDING, ASSIGNED, IN_PROGRESS, COMPLETED, CANCELLED, ON_HOLD}"
    by simp
  then show ?thesis by simp
qed

lemma countJob_total: "total_jobs (countJob st d) = total_jobs st + 1"
  by (simp add: countJob_def Let_def)

lemma countJob_buckets:
  "buckets (countJob st d) =
     buckets st + (if status (snd d) \<in> range JobStatus_value then 1 else 0)"
  unfolding range_JobStatus_value by (simp add: countJob_def Let_def buckets_def)

lemma foldl_countJob_total: "total_jobs (foldl countJob st ds) = total_jobs st + length ds"
  by (induction ds arbitrary: st) (simp_all add: countJob_total)

lemma foldl_countJob_buckets:
  "buckets (foldl countJob st ds) =
     buckets st + length (filter (\<lambda>d. status (snd d) \<in> range JobStatus_value) ds)"
  by (induction ds arbitrary: st) (simp_all add: countJob_buckets)

lemma countJob_unknown:
  "status (snd d) \<notin> range JobStatus_value \<Longrightarrow>
     countJob st d = st\<lparr>total_jobs := total_jobs st + 1\<rparr>"
  unfolding range_JobStatus_value by (simp add: countJob_def Let_def)

text \<open>
  Claim C10. \<open>total\<close> is the number of the documents scanned; the six counters add up
  to the number of scanned documents whose status is one of the six values of the
  enum; a document with any other status adds 1 to \<open>total\<close> and changes nothing
  else; and on a collection of a pending job and a job with the status \<open>archived\<close>
  the total is greater than the sum of the six counters.
\<close>

theorem getJobStats_total:
  "total_jobs (getJobStats getDocs dateRange) = length (getDocs (getJobStatsQuery dateRange))
   \<and> buckets (getJobStats getDocs dateRange) =
       length (filter (\<lambda>d. status (snd d) \<in> range JobStatus_value)
                 (getDocs (getJobStatsQuery dateRange)))
   \<and> (status (snd d) \<notin> range JobStatus_value \<longrightarrow>
        countJob st d = st\<lparr>total_jobs := total_jobs st + 1\<rparr>)
   \<and> buckets (getJobStats (\<lambda>q. [(''j1'', job1), (''j2'', job1\<lparr>status := ''archived''\<rparr>)]) None)
       < total_jobs
           (getJobStats (\<lambda>q. [(''j1'', job1), (''j2'', job1\<lparr>status := ''archived''\<rparr>)]) None)"
proof -
  have 1: "total_jobs (getJobStats g r) = length (g (getJobStatsQuery r))" for g r
    by (simp add: getJobStats_def foldl_countJob_total)
  have 2: "buckets (getJobStats g r) =
       length (filter (\<lambda>d. status (snd d) \<in> range JobStatus_value) (g (getJobStatsQuery r)))"
    for g r
    unfolding getJobStats_def foldl_countJob_buckets by (simp add: buckets_def)
  have 3: "status (snd d) \<notin> range JobStatus_value \<longrightarrow>
        countJob st d = st\<lparr>total_jobs := total_jobs st + 1\<rparr>"
    by (simp add: countJob_unknown)
  have 4: "buckets (getJobStats (\<lambda>q. [(''j1'', job1), (''j2'', job1\<lparr>status := ''archived''\<rparr>)]) None)
       < total_jobs
           (getJobStats (\<lambda>q. [(''j1'', job1), (''j2'', job1\<lparr>status := ''archived''\<rparr>)]) None)"
    unfolding 1 2 range_JobStatus_value by (simp add: job1_def)
  from 1 2 3 4 show ?thesis by blast
qed

theorem getJobStats_total_witness:
  "total_jobs (getJobStats (\<lambda>q. [(''j1'', job1), (''j2'', job1\<lparr>status := ''archived''\<rparr>)]) None) = 2
   \<and> buckets (getJobStats (\<lambda>q. [(''j1'', job1), (''j2'', job1\<lparr>status := ''archived''\<rparr>)]) None) = 1
   \<and> ''archived'' \<notin> range JobStatus_value
   \<and> countJob \<lparr>total_jobs = 1, pending = 1, assigned = 0, inProgress = 0, completed = 0,
        cancelled = 0, onHold = 0\<rparr> (''j2'', job1\<lparr>status := ''archived''\<rparr>)
       = \<lparr>total_jobs = 2, pending = 1, assigned = 0, inProgress = 0, completed = 0,
        cancelled = 0, onHold = 0\<rparr>"
  using getJobStats_total [of "\<lambda>q. [(''j1'', job1), (''j2'', job1\<lparr>status := ''archived''\<rparr>)]" None
      "(''j2'', job1\<lparr>status := ''archived''\<rparr>)"
      "\<lparr>total_jobs = 1, pending = 1, assigned = 0, inProgress = 0, completed = 0,
        cancelled = 0, onHold = 0\<rparr>"]
  by (simp add: range_JobStatus_value job1_def)

section \<open>Assigning a job\<close>

lemma validateJobAssignment_isValid:
  "isValid (validateJobAssignment j t b) = (trim j \<noteq> [] \<and> trim t \<noteq> [] \<and> trim b \<noteq> [])"
proof -
  have "blank x = (trim x = [])" for x
    by (auto simp: blank_def trim_def)
  then show ?thesis
    by (simp add: validateJobAssignment_def mkResult_def)
qed

lemma status_convertFirestoreToJob: "status (convertFirestoreToJob data) = status data"
  by (simp add: convertFirestoreToJob_def)

lemma assignJob_failure:
  "fst (assignJob now a s) = Inl e \<Longrightarrow> snd (assignJob now a s) = s"
  by (auto simp: assignJob_def Let_def split: option.splits if_splits)

lemma assignJob_error_name:
  "fst (assignJob now a s) = Inl e \<Longrightarrow> errorName e = ''Error''"
  by (auto simp: assignJob_def Let_def split: option.splits if_splits)

text \<open>
  Claim C1, as stated: each failed check fails with the corresponding typed error. It
  does not. A missing job, which the specification calls \<open>NotFound\<close>, and a job on
  hold, which it calls \<open>InvalidState\<close>, both throw a value of the one type \<open>Error\<close>,
  so that no reading of the type of the thrown value tells the two checks apart.
\<close>

theorem assignJob_errors_untyped:
  "fst (assignJob 30 (assignment1\<lparr>jobId := ''j9''\<rparr>) store1) = Inl (Error ''Job not found'')
   \<and> fst (assignJob 30 assignment1 (store1\<lparr>jobs := [(''j1'', job1\<lparr>status := ''on_hold''\<rparr>)]\<rparr>))
       = Inl (Error ''Job cannot be assigned. Current status: on_hold'')
   \<and> errorName (Error ''Job not found'')
       = errorName (Error ''Job cannot be assigned. Current status: on_hold'')
   \<and> \<not> (\<exists>kind :: string \<Rightarrow> spec_AssignmentError.
          kind (errorName (Error ''Job not found'')) = NotFound
          \<and> kind (errorName (Error ''Job cannot be assigned. Current status: on_hold''))
              = InvalidState)"
  by (simp add: assignJob_def validateJobAssignment_def blank_def trim_def isWhiteSpace_def
      mkResult_def getJobById_def convertFirestoreToJob_def store1_def job1_def tech1_def
      assignment1_def)

text \<open>
  Claim C1, amended. \<open>assignJob\<close> checks, in this order: the structural validation of
  the three identifiers (each has a character that is not white space), that the job
  exists, that its status is \<open>pending\<close>, that the technician exists, is active, and has
  the role \<open>technician\<close>. The first check that fails decides the error, which is a plain
  \<open>Error\<close> whose message names the check, and the store is returned as it was; so it
  is after any error, and every error is of the type \<open>Error\<close>. When the six checks
  hold, the job document gets \<open>assignedTechnicianId\<close>, \<open>assignedBy\<close>,
  \<open>assignedAt\<close>, the status \<open>assigned\<close> (and \<open>updatedAt\<close>), every other job
  document stays, and one assignment record is added at the end.
\<close>

theorem assignJob_checks:
  "isValid (validateJobAssignment (jobId a) (technicianId a) (assignedBy_asg a)) =
     (trim (jobId a) \<noteq> [] \<and> trim (technicianId a) \<noteq> [] \<and> trim (assignedBy_asg a) \<noteq> [])
   \<and> (\<not> isValid (validateJobAssignment (jobId a) (technicianId a) (assignedBy_asg a)) \<longrightarrow>
      assignJob now a s =
        (Inl (Error (''Assignment validation failed: '' @ join '', ''
           (errors (validateJobAssignment (jobId a) (technicianId a) (assignedBy_asg a))))), s))
   \<and> (isValid (validateJobAssignment (jobId a) (technicianId a) (assignedBy_asg a)) \<longrightarrow>
      (map_of (jobs s) (jobId a) = None \<longrightarrow>
         assignJob now a s = (Inl (Error ''Job not found''), s))
      \<and> (\<forall>data. map_of (jobs s) (jobId a) = Some data \<longrightarrow>
           (status data \<noteq> ''pending'' \<longrightarrow>
              assignJob now a s =
                (Inl (Error (''Job cannot be assigned. Current status: '' @ status data)), s))
           \<and> (status data = ''pending'' \<longrightarrow>
                (map_of (users s) (technicianId a) = None \<longrightarrow>
                   assignJob now a s = (Inl (Error ''Technician not found''), s))
                \<and> (\<forall>technician. map_of (users s) (technicianId a) = Some technician \<longrightarrow>
                     (\<not> isActive technician \<longrightarrow>
                        assignJob now a s = (Inl (Error ''Technician is not active''), s))
                     \<and> (isActive technician \<and> role technician \<noteq> ''technician'' \<longrightarrow>
                          assignJob now a s = (Inl (Error ''User is not a technician''), s))
                     \<and> (isActive technician \<and> role technician = ''technician'' \<longrightarrow>
                          fst (assignJob now a s) = Inr ()
                          \<and> map_of (jobs (snd (assignJob now a s))) =
                              (map_of (jobs s))(jobId a \<mapsto>
                                 data\<lparr>assignedTechnicianId := Some (technicianId a),
                                      assignedBy := Some (assignedBy_asg a),
                                      assignedAt := Some (assignedAt_asg a),
                                      status := ''assigned'',
                                      updatedAt := now\<rparr>)
                          \<and> job_assignments (snd (assignJob now a s)) =
                              job_assignments s @
                                [\<lparr>jobId = jobId a, technicianId = technicianId a,
                                  assignedBy_asg = assignedBy_asg a,
                                  assignedAt_asg = assignedAt_asg a,
                                  notes_asg = notes_asg a, assignmentReason = ''manual''\<rparr>]
                          \<and> users (snd (assignJob now a s)) = users s)))))
   \<and> (\<forall>e. fst (assignJob now a s) = Inl e \<longrightarrow> snd (assignJob now a s) = s)
   \<and> (\<forall>e. fst (assignJob now a s) = Inl e \<longrightarrow> errorName e = ''Error'')"
proof (intro conjI impI allI)
  show "isValid (validateJobAssignment (jobId a) (technicianId a) (assignedBy_asg a)) =
     (trim (jobId a) \<noteq> [] \<and> trim (technicianId a) \<noteq> [] \<and> trim (assignedBy_asg a) \<noteq> [])"
    by (rule validateJobAssignment_isValid)
next
  fix e assume "fst (assignJob now a s) = Inl e"
  then show "snd (assignJob now a s) = s" by (rule assignJob_failure)
next
  fix e assume "fst (assignJob now a s) = Inl e"
  then show "errorName e = ''Error''" by (rule assignJob_error_name)
qed (simp_all add: assignJob_def Let_def getJobById_def status_convertFirestoreToJob
       map_of_map_entry)

text \<open>
  The theorem at seven inputs: an assignment that passes the six checks, and one for
  each check that fails. In the second the job is missing as well, and in the fourth
  the technician: the earlier check decides.
\<close>

theorem assignJob_checks_witness:
  "assignJob 30 assignment1 store1 =
     (Inr (),
      \<lparr>jobs = [(''j1'', job1\<lparr>assignedTechnicianId := Some ''t1'', assignedBy := Some ''d1'',
                           assignedAt := Some 20, status := ''assigned'', updatedAt := 30\<rparr>)],
       users = [(''t1'', tech1)],
       job_assignments =
         [\<lparr>jobId = ''j1'', technicianId = ''t1'', assignedBy_asg = ''d1'', assignedAt_asg = 20,
           notes_asg = None, assignmentReason = ''manual''\<rparr>]\<rparr>)
   \<and> assignJob 30 (assignment1\<lparr>jobId := ''j9'', assignedBy_asg := ''  ''\<rparr>) store1 =
       (Inl (Error ''Assignment validation failed: Assigned by field is required''), store1)
   \<and> assignJob 30 (assignment1\<lparr>jobId := ''j9''\<rparr>) store1 =
       (Inl (Error ''Job not found''), store1)
   \<and> assignJob 30 (assignment1\<lparr>technicianId := ''t9''\<rparr>)
         (store1\<lparr>jobs := [(''j1'', job1\<lparr>status := ''on_hold''\<rparr>)]\<rparr>) =
       (Inl (Error ''Job cannot be assigned. Current status: on_hold''),
        store1\<lparr>jobs := [(''j1'', job1\<lparr>status := ''on_hold''\<rparr>)]\<rparr>)
   \<and> assignJob 30 (assignment1\<lparr>technicianId := ''t9''\<rparr>) store1 =
       (Inl (Error ''Technician not found''), store1)
   \<and> assignJob 30 assignment1
         (store1\<lparr>users := [(''t1'', tech1\<lparr>isActive := False, role := ''admin''\<rparr>)]\<rparr>) =
       (Inl (Error ''Technician is not active''),
        store1\<lparr>users := [(''t1'', tech1\<lparr>isActive := False, role := ''admin''\<rparr>)]\<rparr>)
   \<and> assignJob 30 assignment1 (store1\<lparr>users := [(''t1'', tech1\<lparr>role := ''admin''\<rparr>)]\<rparr>) =
       (Inl (Error ''User is not a technician''),
        store1\<lparr>users := [(''t1'', tech1\<lparr>role := ''admin''\<rparr>)]\<rparr>)"
  using assignJob_checks [where a = assignment1 and s = store1 and now = 30]
    assignJob_checks [where a = "assignment1\<lparr>jobId := ''j9'', assignedBy_asg := ''  ''\<rparr>"
      and s = store1 and now = 30]
    assignJob_checks [where a = "assignment1\<lparr>jobId := ''j9''\<rparr>" and s = store1 and now = 30]
    assignJob_checks [where a = "assignment1\<lparr>technicianId := ''t9''\<rparr>"
      and s = "store1\<lparr>jobs := [(''j1'', job1\<lparr>status := ''on_hold''\<rparr>)]\<rparr>" and now = 30]
    assignJob_checks [where a = "assignment1\<lparr>technicianId := ''t9''\<rparr>" and s = store1
      and now = 30]
    assignJob_checks [where a = assignment1
      and s = "store1\<lparr>users := [(''t1'', tech1\<lparr>isActive := False, role := ''admin''\<rparr>)]\<rparr>"
      and now = 30]
    assignJob_checks [where a = assignment1
      and s = "store1\<lparr>users := [(''t1'', tech1\<lparr>role := ''admin''\<rparr>)]\<rparr>" and now = 30]
  by (simp add: assignJob_def validateJobAssignment_def blank_def trim_def isWhiteSpace_def
      mkResult_def getJobById_def convertFirestoreToJob_def store1_def job1_def tech1_def
      assignment1_def)

section \<open>Updating a job to the status it has\<close>

lemma checkStatusTransition_same:
  "status_upd u = Some st \<Longrightarrow> JobStatus_value st = status job \<Longrightarrow>
     checkStatusTransition job u = None"
  by (simp add: checkStatusTransition_def)

text \<open>
  Claim C3, as stated: an update that asks for the status the job has is rejected as
  an invalid transition. It is not: the job \<open>j1\<close> is pending, the update asks for
  \<open>pending\<close>, and \<open>updateJob\<close> returns without an error.
\<close>

theorem updateJob_same_status_accepted:
  "fst (updateJob 30 ''j1'' (noUpdate\<lparr>status_upd := Some PENDING\<rparr>) store1) = Inr ()
   \<and> status job1 = JobStatus_value PENDING
   \<and> map_of (jobs store1) ''j1'' = Some job1"
  by (simp add: updateJob_def getJobById_def checkStatusTransition_def checkCompletion_def
      store1_def job1_def noUpdate_def convertFirestoreToJob_def)

text \<open>
  Claim C3, amended. When the status asked for is the status of the stored job,
  \<open>updateJob\<close> skips the transition check (its guard is
  \<open>updates.status !== currentJob.status\<close>), so the request never fails with the error of
  an invalid transition: it is written to the store, unless the status is \<open>completed\<close>
  and the completion payload is invalid, which is the error of the completion check.
  \<open>validateStatusTransition\<close> itself rejects every self-transition.
\<close>

theorem updateJob_same_status:
  "map_of (jobs s) jid = Some data \<and> status_upd u = Some st \<and> JobStatus_value st = status data
   \<longrightarrow>
     checkStatusTransition (convertFirestoreToJob data) u = None
     \<and> (\<forall>msg. fst (updateJob now jid u s) \<noteq>
               Inl (Error (''Status transition validation failed: '' @ msg)))
     \<and> (st \<noteq> COMPLETED \<or> isValid (validateJobCompletion u) \<longrightarrow>
          fst (updateJob now jid u s) = Inr ()
          \<and> map_of (jobs (snd (updateJob now jid u s))) =
              (map_of (jobs s))(jid \<mapsto>
                 updateDoc data (updateData now (convertFirestoreToJob data) u) now))
     \<and> (st = COMPLETED \<and> \<not> isValid (validateJobCompletion u) \<longrightarrow>
          updateJob now jid u s =
            (Inl (Error (''Completion validation failed: ''
                         @ join '', '' (errors (validateJobCompletion u)))), s))
     \<and> \<not> isValid (validateStatusTransition st st)"
proof (intro impI, elim conjE)
  assume d: "map_of (jobs s) jid = Some data" and u: "status_upd u = Some st"
    and eq: "JobStatus_value st = status data"
  have g: "getJobById s jid = Some (convertFirestoreToJob data)"
    by (simp add: getJobById_def d)
  have c: "checkStatusTransition (convertFirestoreToJob data) u = None"
    by (rule checkStatusTransition_same [OF u]) (simp add: eq convertFirestoreToJob_def)
  have run: "updateJob now jid u s =
      (case checkCompletion u of
         Some e \<Rightarrow> (Inl e, s)
       | None \<Rightarrow>
           (Inr (),
            s\<lparr>jobs := AList.map_entry jid
                  (\<lambda>d. updateDoc d (updateData now (convertFirestoreToJob data) u) now)
                  (jobs s)\<rparr>))"
    by (simp add: updateJob_def g c)
  have ok: "st \<noteq> COMPLETED \<or> isValid (validateJobCompletion u) \<longrightarrow>
          fst (updateJob now jid u s) = Inr ()
          \<and> map_of (jobs (snd (updateJob now jid u s))) =
              (map_of (jobs s))(jid \<mapsto>
                 updateDoc data (updateData now (convertFirestoreToJob data) u) now)"
    unfolding run by (auto simp: checkCompletion_def u Let_def map_of_map_entry d)
  have bad: "st = COMPLETED \<and> \<not> isValid (validateJobCompletion u) \<longrightarrow>
          updateJob now jid u s =
            (Inl (Error (''Completion validation failed: ''
                         @ join '', '' (errors (validateJobCompletion u)))), s)"
    unfolding run by (simp add: checkCompletion_def u Let_def)
  have never: "\<forall>msg. fst (updateJob now jid u s) \<noteq>
               Inl (Error (''Status transition validation failed: '' @ msg))"
    unfolding run by (simp add: checkCompletion_def u Let_def)
  have self: "\<not> isValid (validateStatusTransition st st)"
    by (rule validateStatusTransition_self)
  from c ok bad never self
  show "checkStatusTransition (convertFirestoreToJob data) u = None
     \<and> (\<forall>msg. fst (updateJob now jid u s) \<noteq>
               Inl (Error (''Status transition validation failed: '' @ msg)))
     \<and> (st \<noteq> COMPLETED \<or> isValid (validateJobCompletion u) \<longrightarrow>
          fst (updateJob now jid u s) = Inr ()
          \<and> map_of (jobs (snd (updateJob now jid u s))) =
              (map_of (jobs s))(jid \<mapsto>
                 updateDoc data (updateData now (convertFirestoreToJob data) u) now))
     \<and> (st = COMPLETED \<and> \<not> isValid (validateJobCompletion u) \<longrightarrow>
          updateJob now jid u s =
            (Inl (Error (''Completion validation failed: ''
                         @ join '', '' (errors (validateJobCompletion u)))), s))
     \<and> \<not> isValid (validateStatusTransition st st)"
    by blast
qed

text \<open>
  The theorem at two inputs: a pending job updated to \<open>pending\<close> (written, with the
  new \<open>updatedAt\<close>), and a completed job updated to \<open>completed\<close> with a negative
  duration (the error of the completion check). A third update, of the pending job to
  \<open>completed\<close>, shows the transition check at work when the status changes.
\<close>

theorem updateJob_same_status_witness:
  "updateJob 30 ''j1'' (noUpdate\<lparr>status_upd := Some PENDING\<rparr>) store1
     = (Inr (), store1\<lparr>jobs := [(''j1'', job1\<lparr>updatedAt := 30\<rparr>)]\<rparr>)
   \<and> updateJob 30 ''j1''
         (noUpdate\<lparr>status_upd := Some COMPLETED, actualDuration_upd := Some (- 5)\<rparr>)
         (store1\<lparr>jobs := [(''j1'', job1\<lparr>status := ''completed''\<rparr>)]\<rparr>)
     = (Inl (Error
          ''Completion validation failed: Actual duration must be greater than 0 minutes''),
        store1\<lparr>jobs := [(''j1'', job1\<lparr>status := ''completed''\<rparr>)]\<rparr>)
   \<and> updateJob 30 ''j1'' (noUpdate\<lparr>status_upd := Some COMPLETED\<rparr>) store1
     = (Inl (Error (''Status transition validation failed: ''
                    @ ''Invalid status transition from pending to completed'')), store1)"
  using updateJob_same_status [where s = store1 and jid = "''j1''" and data = job1
      and u = "noUpdate\<lparr>status_upd := Some PENDING\<rparr>" and st = PENDING and now = 30]
    updateJob_same_status [where s = "store1\<lparr>jobs := [(''j1'', job1\<lparr>status := ''completed''\<rparr>)]\<rparr>"
      and jid = "''j1''" and data = "job1\<lparr>status := ''completed''\<rparr>"
      and u = "noUpdate\<lparr>status_upd := Some COMPLETED, actualDuration_upd := Some (- 5)\<rparr>"
      and st = COMPLETED and now = 30]
  by (simp add: updateJob_def getJobById_def checkStatusTransition_def checkCompletion_def
      store1_def job1_def noUpdate_def convertFirestoreToJob_def updateDoc_def updateData_def
      sanitizeJobData_def sanitizeField_def orElse_def validateJobCompletion_def
      truthy_number_def truthy_string_def mkResult_def validateStatusTransition_def
      lookupStatus_def)

section \<open>The great-circle distance\<close>

text \<open>
  In exact arithmetic the distance is symmetric, and 0 from a point to itself.
\<close>

lemma sin_half_sq_sym:
  "sin (toRadians (x - y) / 2) * sin (toRadians (x - y) / 2)
     = sin (toRadians (y - x) / 2) * sin (toRadians (y - x) / 2)"
proof -
  have "toRadians (x - y) / 2 = - (toRadians (y - x) / 2)"
    by (simp add: toRadians_def field_simps)
  then show ?thesis by (simp only: sin_minus minus_mult_minus)
qed

lemma calculateDistance_sym:
  "calculateDistance lat1 lon1 lat2 lon2 = calculateDistance lat2 lon2 lat1 lon1"
proof -
  have "sin (toRadians (lat2 - lat1) / 2) * sin (toRadians (lat2 - lat1) / 2) +
        cos (toRadians lat1) * cos (toRadians lat2)
          * sin (toRadians (lon2 - lon1) / 2) * sin (toRadians (lon2 - lon1) / 2)
      = sin (toRadians (lat1 - lat2) / 2) * sin (toRadians (lat1 - lat2) / 2) +
        cos (toRadians lat2) * cos (toRadians lat1)
          * sin (toRadians (lon1 - lon2) / 2) * sin (toRadians (lon1 - lon2) / 2)"
    using sin_half_sq_sym [of lat2 lat1] sin_half_sq_sym [of lon2 lon1]
    by (simp add: mult.assoc mult.commute)
  then show ?thesis
    by (simp add: calculateDistance_def Let_def)
qed

lemma calculateDistance_same: "calculateDistance lat1 lon1 lat1 lon1 = 0"
  by (simp add: calculateDistance_def toRadians_def atan2_def)

text \<open>
  In exact arithmetic the sum \<open>a\<close> of \<open>calculateDistance\<close> lies between 0 and 1 for
  all coordinates, so both square roots are of numbers that are not negative, and the
  distance lies between 0 and half the circumference. The source relies on this and
  does not clamp the sum.
\<close>

lemma hav_identity:
  fixes p q :: real
  shows "sin ((q - p) / 2) * sin ((q - p) / 2) + cos p * cos q = (1 + cos (p + q)) / 2"
proof -
  have "2 * ((q - p) / 2) = q - p" by simp
  then have "cos (q - p) = 1 - 2 * (sin ((q - p) / 2) * sin ((q - p) / 2))"
    using cos_double_sin [of "(q - p) / 2"] by (simp only: power2_eq_square)
  moreover have "cos (q - p) = cos q * cos p + sin q * sin p" by (rule cos_diff)
  moreover have "cos (p + q) = cos p * cos q - sin p * sin q" by (rule cos_add)
  ultimately show ?thesis by (simp add: algebra_simps)
qed

lemma haversine_range:
  fixes p q y :: real
  defines "a \<equiv> sin ((q - p) / 2) * sin ((q - p) / 2) + cos p * cos q * sin y * sin y"
  shows "0 \<le> a \<and> a \<le> 1"
proof -
  have sq: "0 \<le> sin t * sin t \<and> sin t * sin t \<le> 1" for t :: real
  proof -
    have "sin t * sin t + cos t * cos t = 1"
      using sin_cos_squared_add [of t] by (simp add: power2_eq_square)
    moreover have "0 \<le> cos t * cos t" "0 \<le> sin t * sin t" by simp_all
    ultimately show ?thesis by linarith
  qed
  have s: "0 \<le> sin y * sin y" "sin y * sin y \<le> 1"
    using sq [of y] by simp_all
  have x: "0 \<le> sin ((q - p) / 2) * sin ((q - p) / 2)" "sin ((q - p) / 2) * sin ((q - p) / 2) \<le> 1"
    using sq [of "(q - p) / 2"] by simp_all
  have c1: "- 1 \<le> cos (p + q)" by (rule cos_ge_minus_one)
  have c2: "cos (p + q) \<le> 1" by (rule cos_le_one)
  have lo: "- 1 \<le> c \<Longrightarrow> 0 \<le> (1 + c) / 2" for c :: real by simp
  have hi: "c \<le> 1 \<Longrightarrow> (1 + c) / 2 \<le> 1" for c :: real by simp
  from lo [OF c1] hi [OF c2] have h: "0 \<le> sin ((q - p) / 2) * sin ((q - p) / 2) + cos p * cos q"
    "sin ((q - p) / 2) * sin ((q - p) / 2) + cos p * cos q \<le> 1"
    unfolding hav_identity by simp_all
  have a: "a = sin ((q - p) / 2) * sin ((q - p) / 2) + (cos p * cos q) * (sin y * sin y)"
    by (simp add: a_def mult.assoc)
  show ?thesis
  proof (cases "0 \<le> cos p * cos q")
    case True
    then have "0 \<le> (cos p * cos q) * (sin y * sin y)" "(cos p * cos q) * (sin y * sin y) \<le> cos p * cos q"
      using s by (simp_all add: mult_left_le)
    then show ?thesis unfolding a using x h by linarith
  next
    case False
    then have n: "cos p * cos q \<le> 0" by simp
    then have "(cos p * cos q) * (sin y * sin y) \<le> 0"
      using s(1) by (simp add: mult_nonpos_nonneg)
    moreover have "cos p * cos q \<le> (cos p * cos q) * (sin y * sin y)"
      using n s by (metis mult.right_neutral mult_left_mono_neg)
    ultimately show ?thesis unfolding a using x h by linarith
  qed
qed


lemma atan2_range:
  assumes "0 \<le> y" and "0 \<le> x"
  shows "0 \<le> atan2 y x \<and> atan2 y x \<le> pi / 2"
proof (cases "x > 0")
  case True
  then have "0 \<le> y / x" using assms(1) by simp
  then have "0 \<le> arctan (y / x)" by (simp only: zero_le_arctan_iff)
  moreover have "arctan (y / x) \<le> pi / 2" using arctan_ubound [of "y / x"] by simp
  ultimately show ?thesis using True by (simp add: atan2_def)
next
  case False
  with assms(2) have "x = 0" by simp
  then show ?thesis using assms(1) by (simp add: atan2_def)
qed

lemma calculateDistance_range:
  "0 \<le> calculateDistance lat1 lon1 lat2 lon2 \<and> calculateDistance lat1 lon1 lat2 lon2 \<le> 6371 * pi"
proof -
  define a where "a = sin (toRadians (lat2 - lat1) / 2) * sin (toRadians (lat2 - lat1) / 2) +
      cos (toRadians lat1) * cos (toRadians lat2)
        * sin (toRadians (lon2 - lon1) / 2) * sin (toRadians (lon2 - lon1) / 2)"
  have "toRadians (lat2 - lat1) = toRadians lat2 - toRadians lat1"
    by (simp add: toRadians_def left_diff_distrib)
  then have "0 \<le> a \<and> a \<le> 1"
    unfolding a_def using haversine_range [of "toRadians lat2" "toRadians lat1"
        "toRadians (lon2 - lon1) / 2"]
    by simp
  then have "0 \<le> sqrt a" and "0 \<le> sqrt (1 - a)" by simp_all
  from atan2_range [OF this]
  have "0 \<le> 2 * atan2 (sqrt a) (sqrt (1 - a))" and "2 * atan2 (sqrt a) (sqrt (1 - a)) \<le> pi"
    by simp_all
  moreover have "calculateDistance lat1 lon1 lat2 lon2 = 6371 * (2 * atan2 (sqrt a) (sqrt (1 - a)))"
    by (simp add: calculateDistance_def Let_def a_def)
  ultimately show ?thesis by simp
qed

text \<open>
  With a sum between 0 and 1 the last two lines of \<open>calculateDistance\<close> give a real,
  which for the exact sum is the distance of the definition above; with any other sum
  they give \<open>NaN\<close>.
\<close>

lemma distanceOfSum_exact:
  "0 \<le> a \<Longrightarrow> a \<le> 1 \<Longrightarrow>
     distanceOfSum a = Num (6371 * (2 * atan2 (sqrt a) (sqrt (1 - a))))"
  by (simp add: distanceOfSum_def jsSqrt_def Let_def mult.commute)

lemma haversineSum_range:
  "0 \<le> haversineSum lat1 lon1 lat2 lon2 \<and> haversineSum lat1 lon1 lat2 lon2 \<le> 1"
proof -
  have "toRadians (lat2 - lat1) = toRadians lat2 - toRadians lat1"
    by (simp add: toRadians_def left_diff_distrib)
  then show ?thesis
    unfolding haversineSum_def
    using haversine_range [of "toRadians lat2" "toRadians lat1" "toRadians (lon2 - lon1) / 2"]
    by simp
qed

lemma distanceOfSum_haversineSum:
  "distanceOfSum (haversineSum lat1 lon1 lat2 lon2) = Num (calculateDistance lat1 lon1 lat2 lon2)"
proof -
  have "distanceOfSum (haversineSum lat1 lon1 lat2 lon2) =
      Num (6371 * (2 * atan2 (sqrt (haversineSum lat1 lon1 lat2 lon2))
                             (sqrt (1 - haversineSum lat1 lon1 lat2 lon2))))"
    using haversineSum_range [of lat1 lon1 lat2 lon2] by (simp add: distanceOfSum_exact)
  then show ?thesis
    by (simp add: calculateDistance_def Let_def haversineSum_def)
qed

lemma distanceOfSum_NaN: "distanceOfSum a = NaN \<longleftrightarrow> a < 0 \<or> 1 < a"
  by (auto simp: distanceOfSum_def jsSqrt_def Let_def)



section \<open>Listing jobs\<close>

lemma getJobsQuery_None_set:
  "x \<in> set (getJobsQuery s f n None) \<Longrightarrow> (\<forall>jid d. x \<noteq> StartAfter jid d)
      \<and> (\<forall>k. x = Limit k \<longrightarrow> k = n + 1)
      \<and> (\<forall>fld dir. x = OrderBy fld dir \<longrightarrow> fld = ''createdAt'' \<and> dir = Desc)"
  by (auto simp: getJobsQuery_def split: option.splits if_splits prod.splits)

lemma getJobsQuery_no_cursor:
  "map_of (jobs s) jid = None \<Longrightarrow> getJobsQuery s f n (Some jid) = getJobsQuery s f n None"
  by (simp add: getJobsQuery_def)

lemma getJobsQuery_empty_cursor: "getJobsQuery s f n (Some []) = getJobsQuery s f n None"
  by (simp add: getJobsQuery_def)

lemma getJobsQuery_cursor:
  "jid \<noteq> [] \<Longrightarrow> map_of (jobs s) jid = Some d \<Longrightarrow>
     getJobsQuery s f n (Some jid) = getJobsQuery s f n None @ [StartAfter jid d]"
  by (simp add: getJobsQuery_def)

lemma getJobsQuery_cases:
  "getJobsQuery s f n c = getJobsQuery s f n None
   \<or> (\<exists>jid d. c = Some jid \<and> jid \<noteq> [] \<and> map_of (jobs s) jid = Some d
        \<and> getJobsQuery s f n c = getJobsQuery s f n None @ [StartAfter jid d])"
proof (cases c)
  case None
  then show ?thesis by simp
next
  case (Some jid)
  show ?thesis
  proof (cases "jid = []")
    case True
    with Some show ?thesis by (simp add: getJobsQuery_empty_cursor)
  next
    case False
    show ?thesis
    proof (cases "map_of (jobs s) jid")
      case None
      with Some show ?thesis by (simp add: getJobsQuery_no_cursor)
    next
      case (Some d)
      with False \<open>c = Some jid\<close> show ?thesis by (simp add: getJobsQuery_cursor)
    qed
  qed
qed

lemma getJobsQuery_limit: "Limit k \<in> set (getJobsQuery s f n c) \<Longrightarrow> k = n + 1"
  using getJobsQuery_cases [of s f n c] getJobsQuery_None_set [of "Limit k" s f n]
  by auto

lemma getJobsQuery_orderBy:
  "OrderBy fld dir \<in> set (getJobsQuery s f n c) \<Longrightarrow> fld = ''createdAt'' \<and> dir = Desc"
  using getJobsQuery_cases [of s f n c] getJobsQuery_None_set [of "OrderBy fld dir" s f n]
  by auto

lemma getJobsQuery_startAfter:
  "StartAfter jid d \<in> set (getJobsQuery s f n c) \<longleftrightarrow>
     (c = Some jid \<and> jid \<noteq> [] \<and> map_of (jobs s) jid = Some d)"
proof
  assume "StartAfter jid d \<in> set (getJobsQuery s f n c)"
  then show "c = Some jid \<and> jid \<noteq> [] \<and> map_of (jobs s) jid = Some d"
    using getJobsQuery_cases [of s f n c] getJobsQuery_None_set [of "StartAfter jid d" s f n]
    by auto
next
  assume "c = Some jid \<and> jid \<noteq> [] \<and> map_of (jobs s) jid = Some d"
  then show "StartAfter jid d \<in> set (getJobsQuery s f n c)"
    by (simp add: getJobsQuery_cursor)
qed

lemma foldl_pushJob:
  "length acc \<le> n \<Longrightarrow>
     foldl (pushJob n) acc ds =
       acc @ map (\<lambda>d. (fst d, convertFirestoreToJob (snd d))) (take (n - length acc) ds)"
proof (induction ds arbitrary: acc)
  case Nil
  then show ?case by simp
next
  case (Cons d ds)
  show ?case
  proof (cases "length acc < n")
    case True
    then have "n - length acc = Suc (n - Suc (length acc))" by simp
    with True Cons.IH [of "acc @ [(fst d, convertFirestoreToJob (snd d))]"]
    show ?thesis by (simp add: pushJob_def)
  next
    case False
    with Cons.prems have "length acc = n" by simp
    with Cons.IH [of acc] show ?thesis by (simp add: pushJob_def)
  qed
qed

lemma foldl_pushJob_Nil:
  "foldl (pushJob n) [] ds = map (\<lambda>d. (fst d, convertFirestoreToJob (snd d))) (take n ds)"
  using foldl_pushJob [of "[]" n ds] by simp

lemma jobs_page_subset:
  "set (jobs_page (getJobs getDocs s f n c)) \<subseteq>
     set (map (\<lambda>d. (fst d, convertFirestoreToJob (snd d)))
            (take n (getDocs (getJobsQuery s f n c))))"
  by (auto simp: getJobs_def Let_def foldl_pushJob_Nil split: option.splits)

lemma jobs_page_length: "length (jobs_page (getJobs getDocs s f n c)) \<le> n"
proof -
  have le: "length (filter P (filter Q xs)) \<le> length xs" for P Q and xs :: Snapshot
    by (meson le_trans length_filter_le)
  have "length (jobs_page (getJobs getDocs s f n c))
          \<le> length (map (\<lambda>d. (fst d, convertFirestoreToJob (snd d)))
               (take n (getDocs (getJobsQuery s f n c))))"
    unfolding getJobs_def Let_def foldl_pushJob_Nil
    by (auto split: option.splits intro: le order_trans [OF length_filter_le])
  then show ?thesis by simp
qed

lemma getJobsQuery_location:
  "getJobsQuery s (Some (f\<lparr>location_flt := v\<rparr>)) n c = getJobsQuery s (Some f) n c"
  by (simp add: getJobsQuery_def)

lemma getJobs_location:
  assumes "location_flt f = Some g"
  shows "jobs_page (getJobs getDocs s (Some f) n c) =
     filter (withinRadius g) (jobs_page (getJobs getDocs s (Some (f\<lparr>location_flt := None\<rparr>)) n c))"
  using assms by (simp add: getJobs_def Let_def getJobsQuery_location)

text \<open>
  Claim C7. The query of \<open>getJobs\<close> starts with the order by creation time,
  descending, and the limit \<open>pageSize + 1\<close>, and has no other order or limit; the page
  has at most \<open>pageSize\<close> jobs, all among the first \<open>pageSize\<close> documents returned;
  \<open>hasMore\<close> is true exactly when the store returned more than \<open>pageSize\<close>
  documents, whatever the text and geo filters then keep; and when the cursor does not
  resolve to a document, the query and the result are those of the call without a
  cursor: the query has a start position only for a cursor that resolves. The model
  of \<open>getJobs\<close> returns a page for every input; the one \<open>throw\<close> of the source wraps
  a failed call to the store, which the model does not have.
\<close>

theorem getJobs_pagination:
  "take 2 (getJobsQuery s f n c) = [OrderBy ''createdAt'' Desc, Limit (n + 1)]
   \<and> (\<forall>k. Limit k \<in> set (getJobsQuery s f n c) \<longrightarrow> k = n + 1)
   \<and> (\<forall>fld dir. OrderBy fld dir \<in> set (getJobsQuery s f n c) \<longrightarrow>
         fld = ''createdAt'' \<and> dir = Desc)
   \<and> length (jobs_page (getJobs getDocs s f n c)) \<le> n
   \<and> set (jobs_page (getJobs getDocs s f n c)) \<subseteq>
       set (map (\<lambda>d. (fst d, convertFirestoreToJob (snd d)))
              (take n (getDocs (getJobsQuery s f n c))))
   \<and> hasMore (getJobs getDocs s f n c) = (n < length (getDocs (getJobsQuery s f n c)))
   \<and> (\<forall>jid. c = Some jid \<and> map_of (jobs s) jid = None \<longrightarrow>
         getJobsQuery s f n c = getJobsQuery s f n None
         \<and> getJobs getDocs s f n c = getJobs getDocs s f n None)
   \<and> (\<forall>jid d. StartAfter jid d \<in> set (getJobsQuery s f n c) \<longleftrightarrow>
         c = Some jid \<and> jid \<noteq> [] \<and> map_of (jobs s) jid = Some d)"
proof -
  have 1: "take 2 (getJobsQuery s f n c) = [OrderBy ''createdAt'' Desc, Limit (n + 1)]"
    by (simp add: getJobsQuery_def)
  have 2: "\<forall>k. Limit k \<in> set (getJobsQuery s f n c) \<longrightarrow> k = n + 1"
    using getJobsQuery_limit by blast
  have 3: "\<forall>fld dir. OrderBy fld dir \<in> set (getJobsQuery s f n c) \<longrightarrow>
         fld = ''createdAt'' \<and> dir = Desc"
    using getJobsQuery_orderBy by blast
  have 4: "length (jobs_page (getJobs getDocs s f n c)) \<le> n"
    by (rule jobs_page_length)
  have 5: "set (jobs_page (getJobs getDocs s f n c)) \<subseteq>
       set (map (\<lambda>d. (fst d, convertFirestoreToJob (snd d)))
              (take n (getDocs (getJobsQuery s f n c))))"
    by (rule jobs_page_subset)
  have 6: "hasMore (getJobs getDocs s f n c) = (n < length (getDocs (getJobsQuery s f n c)))"
    by (simp add: getJobs_def Let_def)
  have 7: "\<forall>jid. c = Some jid \<and> map_of (jobs s) jid = None \<longrightarrow>
         getJobsQuery s f n c = getJobsQuery s f n None
         \<and> getJobs getDocs s f n c = getJobs getDocs s f n None"
    by (simp add: getJobs_def getJobsQuery_no_cursor)
  have 8: "\<forall>jid d. StartAfter jid d \<in> set (getJobsQuery s f n c) \<longleftrightarrow>
         c = Some jid \<and> jid \<noteq> [] \<and> map_of (jobs s) jid = Some d"
    using getJobsQuery_startAfter by blast
  from 1 2 3 4 5 6 7 8 show ?thesis by blast
qed

text \<open>
  The theorem on a store that returns three documents for a page size of 2, with a
  cursor that no document has: the page is the one without a cursor, and \<open>hasMore\<close>
  is true even where the text filter keeps one job, or none.
\<close>

theorem getJobs_pagination_witness:
  "getJobsQuery store1 (Some (noFilter\<lparr>searchText_flt := Some ''SWITCH''\<rparr>)) 2 (Some ''j7'')
     = [OrderBy ''createdAt'' Desc, Limit 3]
   \<and> map_of (jobs store1) ''j7'' = None
   \<and> getJobs (\<lambda>q. docs3) store1 (Some (noFilter\<lparr>searchText_flt := Some ''SWITCH''\<rparr>)) 2
        (Some ''j7'')
     = \<lparr>jobs_page = [(''j2'', convertFirestoreToJob jobPole)], hasMore = True\<rparr>
   \<and> getJobs (\<lambda>q. docs3) store1 (Some (noFilter\<lparr>searchText_flt := Some ''SWITCH''\<rparr>)) 2
        (Some ''j7'')
     = getJobs (\<lambda>q. docs3) store1 (Some (noFilter\<lparr>searchText_flt := Some ''SWITCH''\<rparr>)) 2
        None
   \<and> getJobs (\<lambda>q. docs3) store1 (Some (noFilter\<lparr>searchText_flt := Some ''fibre''\<rparr>)) 2
        (Some ''j7'')
     = \<lparr>jobs_page = [], hasMore = True\<rparr>"
  using getJobs_pagination [where s = store1
      and f = "Some (noFilter\<lparr>searchText_flt := Some ''SWITCH''\<rparr>)" and n = 2
      and c = "Some ''j7''" and getDocs = "\<lambda>q. docs3"]
  by (simp add: getJobs_def docs3_def pushJob_def getJobsQuery_def store1_def noFilter_def
      matchesSearchText_def toLowerCase_def toLowerCaseChar_def job1_def jobPole_def
      convertFirestoreToJob_def char_of_eq_iff)

section \<open>Recommending jobs\<close>

text \<open>
  When the job requires at least one skill, the score is the sum of the three parts:
  50 times the share of the required skills that the technician has, the points of the
  priority, and the points of the distance (0 without a current location).
\<close>

lemma skillScore_finite:
  "skills (requirements job) \<noteq> [] \<Longrightarrow>
     skillScore technicianSkills job =
       Num (real (length (filter (\<lambda>skill. skill \<in> set technicianSkills) (skills (requirements job))))
            / real (length (skills (requirements job))) * 50)"
  by (simp add: skillScore_def jsDiv_def Let_def)

lemma jobScore_additive:
  assumes "skills (requirements job) \<noteq> []"
  shows "jobScore technicianSkills technicianLocation job =
     Num (real (length (filter (\<lambda>skill. skill \<in> set technicianSkills) (skills (requirements job))))
            / real (length (skills (requirements job))) * 50
          + priorityScores (priority job)
          + (case technicianLocation of
               None \<Rightarrow> 0
             | Some l \<Rightarrow>
                 spec_distanceScore
                   (calculateDistance (latitude_loc l) (longitude_loc l)
                      (latitude (location job)) (longitude (location job)))))"
  unfolding jobScore_def skillScore_finite [OF assms]
  by (simp add: Let_def spec_distanceScore_def split: option.splits)

lemma jobScore_cabling:
  assumes "skills (requirements job) = [''cabling'']" and "''cabling'' \<in> set technicianSkills"
    and "priority job = URGENT"
    and "calculateDistance (latitude_loc l) (longitude_loc l)
           (latitude (location job)) (longitude (location job)) \<le> 5"
  shows "jobScore technicianSkills (Some l) job = Num 100"
proof -
  have "skills (requirements job) \<noteq> []" using assms(1) by simp
  from jobScore_additive [OF this, of technicianSkills "Some l"] assms
  show ?thesis by (simp add: spec_distanceScore_def)
qed

lemma priorityScores_values:
  "priorityScores URGENT = 30 \<and> priorityScores HIGH = 20 \<and> priorityScores MEDIUM = 10
   \<and> priorityScores LOW = 5"
  by simp

text \<open>
  The sort: a permutation, and sorted by descending score when every score is a real.
\<close>

lemma mset_insertBy: "mset (insertBy cmp x ys) = add_mset x (mset ys)"
  by (induction ys) simp_all

lemma mset_sortBy: "mset (sortBy cmp xs) = mset xs"
  by (induction xs) (simp_all add: sortBy_def mset_insertBy)

lemma set_insertBy: "set (insertBy cmp x ys) = insert x (set ys)"
  by (induction ys) auto

lemma descending_Cons:
  "descending (x # xs) \<longleftrightarrow>
     (\<forall>y \<in> set xs. \<exists>a b. snd x = Num a \<and> snd y = Num b \<and> b \<le> a) \<and> descending xs"
  by (simp add: descending_def)

lemma insertBy_descending:
  fixes x :: "'a \<times> number"
  assumes "snd x = Num r" and "descending ys" and "\<forall>y \<in> set ys. \<exists>b. snd y = Num b"
  shows "descending (insertBy (\<lambda>a b. jsMinus (snd b) (snd a)) x ys)"
  using assms(2,3)
proof (induction ys)
  case Nil
  then show ?case by (simp add: descending_def)
next
  case (Cons y ys)
  from Cons.prems(2) obtain b where b: "snd y = Num b" by auto
  from Cons.prems(1) have tail: "descending ys"
    and head: "\<forall>z \<in> set ys. \<exists>a c. snd y = Num a \<and> snd z = Num c \<and> c \<le> a"
    by (simp_all add: descending_Cons)
  show ?case
  proof (cases "b > r")
    case True
    then have ins: "insertBy (\<lambda>a b. jsMinus (snd b) (snd a)) x (y # ys)
        = y # insertBy (\<lambda>a b. jsMinus (snd b) (snd a)) x ys"
      by (simp add: b assms(1))
    have "descending (insertBy (\<lambda>a b. jsMinus (snd b) (snd a)) x ys)"
      using Cons.IH tail Cons.prems(2) by simp
    moreover have "\<forall>z \<in> set (insertBy (\<lambda>a b. jsMinus (snd b) (snd a)) x ys).
        \<exists>a c. snd y = Num a \<and> snd z = Num c \<and> c \<le> a"
      using head True b assms(1) by (auto simp: set_insertBy)
    ultimately show ?thesis unfolding ins by (simp add: descending_Cons)
  next
    case False
    then have ins: "insertBy (\<lambda>a b. jsMinus (snd b) (snd a)) x (y # ys) = x # y # ys"
      by (simp add: b assms(1))
    have "\<forall>z \<in> set (y # ys). \<exists>a c. snd x = Num a \<and> snd z = Num c \<and> c \<le> a"
    proof
      fix z assume "z \<in> set (y # ys)"
      then consider "z = y" | "z \<in> set ys" by auto
      then show "\<exists>a c. snd x = Num a \<and> snd z = Num c \<and> c \<le> a"
      proof cases
        case 1
        then show ?thesis using False b assms(1) by simp
      next
        case 2
        with head obtain c where "snd z = Num c" "c \<le> b" using b by auto
        then show ?thesis using False assms(1) by simp
      qed
    qed
    then show ?thesis unfolding ins using Cons.prems(1) by (simp add: descending_Cons)
  qed
qed

lemma sortBy_descending:
  fixes xs :: "('a \<times> number) list"
  assumes "\<forall>x \<in> set xs. \<exists>r. snd x = Num r"
  shows "descending (sortBy (\<lambda>a b. jsMinus (snd b) (snd a)) xs)"
  using assms
proof (induction xs)
  case Nil
  then show ?case by (simp add: sortBy_def descending_def)
next
  case (Cons x xs)
  then obtain r where r: "snd x = Num r" by auto
  have d: "descending (sortBy (\<lambda>a b. jsMinus (snd b) (snd a)) xs)"
    using Cons by simp
  have "set (sortBy (\<lambda>a b. jsMinus (snd b) (snd a)) xs) = set xs"
    using mset_sortBy [of "\<lambda>a b. jsMinus (snd b) (snd a)" xs] by (metis set_mset_mset)
  then have f: "\<forall>y \<in> set (sortBy (\<lambda>a b. jsMinus (snd b) (snd a)) xs). \<exists>b. snd y = Num b"
    using Cons.prems by simp
  have "sortBy (\<lambda>a b. jsMinus (snd b) (snd a)) (x # xs)
      = insertBy (\<lambda>a b. jsMinus (snd b) (snd a)) x (sortBy (\<lambda>a b. jsMinus (snd b) (snd a)) xs)"
    by (simp add: sortBy_def)
  then show ?case using insertBy_descending [OF r d f] by simp
qed

lemma descending_take: "descending xs \<Longrightarrow> descending (take m xs)"
  unfolding descending_def by (rule sorted_wrt_take)

lemma scoredJobs_finite:
  assumes "\<forall>d \<in> set docs. skills (requirements (snd d)) \<noteq> []"
  shows "\<forall>x \<in> set (scoredJobs ts loc docs). \<exists>r. snd x = Num r"
proof
  fix x assume "x \<in> set (scoredJobs ts loc docs)"
  then obtain d where d: "d \<in> set docs"
    and x: "x = ((fst d, convertFirestoreToJob (snd d)),
                 jobScore ts loc (convertFirestoreToJob (snd d)))"
    by (auto simp: scoredJobs_def Let_def)
  have "skills (requirements (convertFirestoreToJob (snd d))) \<noteq> []"
    using assms d by (simp add: convertFirestoreToJob_def)
  from jobScore_additive [OF this, of ts loc] show "\<exists>r. snd x = Num r"
    by (simp add: x)
qed

lemma getJobRecommendations_sorted:
  assumes "map_of (users s) tid = Some technician"
    and "\<forall>d \<in> set (getDocs (getJobRecommendationsQuery m)). skills (requirements (snd d)) \<noteq> []"
  shows "\<exists>ranked.
     getJobRecommendations getDocs s tid m = Inr (map fst (take m ranked))
     \<and> mset ranked =
         mset (scoredJobs (case skills_user technician of Some sk \<Rightarrow> sk | None \<Rightarrow> [])
                 (currentLocation technician) (getDocs (getJobRecommendationsQuery m)))
     \<and> descending ranked \<and> descending (take m ranked)
     \<and> length (map fst (take m ranked)) \<le> m"
proof -
  let ?js = "scoredJobs (case skills_user technician of Some sk \<Rightarrow> sk | None \<Rightarrow> [])
                 (currentLocation technician) (getDocs (getJobRecommendationsQuery m))"
  let ?ranked = "sortBy (\<lambda>a b. jsMinus (snd b) (snd a)) ?js"
  have "getJobRecommendations getDocs s tid m = Inr (map fst (take m ?ranked))"
    by (simp add: getJobRecommendations_def assms(1) Let_def)
  moreover have "mset ?ranked = mset ?js" by (rule mset_sortBy)
  moreover have d: "descending ?ranked"
    by (rule sortBy_descending) (rule scoredJobs_finite [OF assms(2)])
  moreover have "descending (take m ?ranked)"
    by (rule descending_take [OF d])
  moreover have "length (map fst (take m ?ranked)) \<le> m" by simp
  ultimately show ?thesis by blast
qed

text \<open>The scores of the three example jobs for the example technician.\<close>

lemma jobScore_jobs:
  "jobScore [''cabling''] (Some \<lparr>latitude_loc = 0, longitude_loc = 0\<rparr>) (convertFirestoreToJob jobA) = Num 50"
  "jobScore [''cabling''] (Some \<lparr>latitude_loc = 0, longitude_loc = 0\<rparr>) (convertFirestoreToJob jobB) = NaN"
  "jobScore [''cabling''] (Some \<lparr>latitude_loc = 0, longitude_loc = 0\<rparr>) (convertFirestoreToJob jobC) = Num 90"
  by (simp_all add: jobScore_def skillScore_def jsDiv_def jobA_def jobB_def jobC_def job1_def
      convertFirestoreToJob_def calculateDistance_same)

text \<open>
  Claim C4 at a job that requires no skill: the division is 0 / 0, which nothing
  guards, and the skill part and the whole score are \<open>NaN\<close>, not 50 and not a number.
\<close>

theorem skillScore_no_required_skills:
  "skillScore technicianSkills (job\<lparr>requirements := \<lparr>skills = []\<rparr>\<rparr>) = NaN
   \<and> jobScore technicianSkills technicianLocation (job\<lparr>requirements := \<lparr>skills = []\<rparr>\<rparr>) = NaN"
proof -
  have s: "skillScore technicianSkills (job\<lparr>requirements := \<lparr>skills = []\<rparr>\<rparr>) = NaN"
    by (simp add: skillScore_def jsDiv_def)
  have "jobScore technicianSkills technicianLocation (job\<lparr>requirements := \<lparr>skills = []\<rparr>\<rparr>) = NaN"
    unfolding jobScore_def s by (simp add: Let_def split: option.splits)
  with s show ?thesis by simp
qed

text \<open>
  Claim C6 at a pool that has a job requiring no skill: its score is \<open>NaN\<close>, every
  comparison with it is \<open>NaN\<close> and counts as a tie, and the sort leaves the job
  of score 50 before the job of score 90. With room for two jobs, the job of score 90 is
  the one left out.
\<close>

theorem getJobRecommendations_unsorted:
  "getJobRecommendations (\<lambda>q. pendingDocs) store1 ''t1'' 2
     = Inr [(''a'', convertFirestoreToJob jobA), (''b'', convertFirestoreToJob jobB)]
   \<and> scoredJobs [''cabling''] (Some \<lparr>latitude_loc = 0, longitude_loc = 0\<rparr>) pendingDocs
     = [((''a'', convertFirestoreToJob jobA), Num 50), ((''b'', convertFirestoreToJob jobB), NaN),
        ((''c'', convertFirestoreToJob jobC), Num 90)]
   \<and> getJobRecommendations (\<lambda>q. pendingDocs) store1 ''t1'' 3
     = Inr [(''a'', convertFirestoreToJob jobA), (''b'', convertFirestoreToJob jobB),
            (''c'', convertFirestoreToJob jobC)]"
proof -
  have sc: "scoredJobs [''cabling''] (Some \<lparr>latitude_loc = 0, longitude_loc = 0\<rparr>) pendingDocs
     = [((''a'', convertFirestoreToJob jobA), Num 50), ((''b'', convertFirestoreToJob jobB), NaN),
        ((''c'', convertFirestoreToJob jobC), Num 90)]"
    by (simp add: scoredJobs_def pendingDocs_def jobScore_jobs Let_def)
  have "getJobRecommendations (\<lambda>q. pendingDocs) store1 ''t1'' m
     = Inr (map fst (take m [((''a'', convertFirestoreToJob jobA), Num 50),
                             ((''b'', convertFirestoreToJob jobB), NaN),
                             ((''c'', convertFirestoreToJob jobC), Num 90)]))" for m
    by (simp add: getJobRecommendations_def store1_def tech1_def sc sortBy_def Let_def)
  from this [of 2] this [of 3] sc show ?thesis by (simp add: numeral_2_eq_2 numeral_3_eq_3)
qed

end
